theory Spec2Isabelle
  imports Complex_Main "HOL-Library.AList"
begin

section \<open>Python values and exceptions\<close>

text \<open>
  The client in \<^verbatim>\<open>runkeeper.py\<close> talks to a web service and keeps what it learns in
  object fields. The values it stores are whatever \<^verbatim>\<open>json.loads\<close> produced, so they
  are modelled as a JSON tree; \<open>JNull\<close> is Python's \<^verbatim>\<open>None\<close>. A dictionary is an
  association list read with \<open>map_of\<close> (the first binding of a key is the one seen).
\<close>

datatype json =
    JNull
  | JBool bool
  | JInt int
  | JFloat real
  | JStr string
  | JArr "json list"
  | JObj "(string \<times> json) list"

text \<open>
  The six exceptions of \<^verbatim>\<open>runkeeperExceptions\<close> under the names the source imports
  (\<open>InvalidAuhentication\<close> is the source's spelling), the exception of the HTTP
  library for a failed transport, and the built-in exceptions the code can let escape.
\<close>

datatype error =
    InvalidAuhentication
  | NoActivityInMonth
  | EndpointConnectionError
  | ProfileNotFound
  | InvalidActivityId
  | NoActivitiesFound
  | RequestException
  | KeyError
  | TypeError
  | AttributeError
  | ValueError

type_synonym 'a result = "error + 'a"

text \<open>Truth value testing, as \<^verbatim>\<open>not x\<close> and \<^verbatim>\<open>x or y\<close> apply it.\<close>

fun truthy :: "json \<Rightarrow> bool" where
  "truthy JNull = False"
| "truthy (JBool b) = b"
| "truthy (JInt i) = (i \<noteq> 0)"
| "truthy (JFloat x) = (x \<noteq> 0)"
| "truthy (JStr s) = (s \<noteq> [])"
| "truthy (JArr xs) = (xs \<noteq> [])"
| "truthy (JObj kvs) = (kvs \<noteq> [])"

text \<open>\<^verbatim>\<open>d.get(key)\<close>: the value, or \<^verbatim>\<open>None\<close>.\<close>

definition dict_get :: "(string \<times> json) list \<Rightarrow> string \<Rightarrow> json" where
  "dict_get kvs k = (case map_of kvs k of None \<Rightarrow> JNull | Some v \<Rightarrow> v)"

text \<open>\<^verbatim>\<open>x[key]\<close> with a string key: a missing key is a KeyError, and no other JSON
  value can be indexed by a string.\<close>

definition py_getitem :: "json \<Rightarrow> string \<Rightarrow> json result" where
  "py_getitem j k =
     (case j of
        JObj kvs \<Rightarrow> (case map_of kvs k of None \<Rightarrow> Inl KeyError | Some v \<Rightarrow> Inr v)
      | _ \<Rightarrow> Inl TypeError)"

text \<open>\<^verbatim>\<open>for x in j\<close>: a list gives its elements, a dictionary its keys in order of
  first insertion, a string its characters; nothing else is iterable.\<close>

definition dict_keys :: "(string \<times> json) list \<Rightarrow> string list" where
  "dict_keys kvs = rev (remdups (rev (map fst kvs)))"

definition py_iter :: "json \<Rightarrow> json list result" where
  "py_iter j =
     (case j of
        JArr xs \<Rightarrow> Inr xs
      | JObj kvs \<Rightarrow> Inr (map JStr (dict_keys kvs))
      | JStr s \<Rightarrow> Inr (map (\<lambda>c. JStr [c]) s)
      | _ \<Rightarrow> Inl TypeError)"

text \<open>A list comprehension whose body can raise stops at the first exception.\<close>

fun map_result :: "('a \<Rightarrow> 'b result) \<Rightarrow> 'a list \<Rightarrow> 'b list result" where
  "map_result f [] = Inr []"
| "map_result f (x # xs) =
     (case f x of
        Inl e \<Rightarrow> Inl e
      | Inr y \<Rightarrow> (case map_result f xs of Inl e \<Rightarrow> Inl e | Inr ys \<Rightarrow> Inr (y # ys)))"

section \<open>Strings\<close>

text \<open>\<^verbatim>\<open>s.split(sep)\<close> with a one-character separator: every occurrence splits, empty
  pieces are kept, and the result is never empty.\<close>

fun split :: "char \<Rightarrow> string \<Rightarrow> string list" where
  "split sep [] = [[]]"
| "split sep (c # cs) =
     (if c = sep then [] # split sep cs
      else (case split sep cs of p # ps \<Rightarrow> (c # p) # ps | [] \<Rightarrow> [[c]]))"

text \<open>Whitespace of \<^verbatim>\<open>str.rstrip()\<close> and of \<^verbatim>\<open>\s\<close> among the characters below 256: tab to
  carriage return, the four separators 28 to 31, the space, the next-line character
  U+0085 and the no-break space U+00A0.\<close>

definition whitespace :: "char list" where
  "whitespace = [CHR 0x09, CHR 0x0A, CHR 0x0B, CHR 0x0C, CHR 0x0D,
                 CHR 0x1C, CHR 0x1D, CHR 0x1E, CHR 0x1F, CHR '' '', CHR 0x85, CHR 0xA0]"

definition isspace :: "char \<Rightarrow> bool" where
  "isspace c = (c \<in> set whitespace)"

definition rstrip :: "string \<Rightarrow> string" where
  "rstrip s = rev (dropWhile isspace (rev s))"

definition isdigit :: "char \<Rightarrow> bool" where
  "isdigit c = (c \<in> set ''0123456789'')"

definition isalpha_ascii :: "char \<Rightarrow> bool" where
  "isalpha_ascii c =
     (c \<in> set ''abcdefghijklmnopqrstuvwxyz'' \<or> c \<in> set ''ABCDEFGHIJKLMNOPQRSTUVWXYZ'')"

definition lower :: "string \<Rightarrow> string" where
  "lower s =
     map (\<lambda>c. case map_of (zip ''ABCDEFGHIJKLMNOPQRSTUVWXYZ'' ''abcdefghijklmnopqrstuvwxyz'') c of
                 None \<Rightarrow> c | Some d \<Rightarrow> d) s"

text \<open>\<^verbatim>\<open>xs[i]\<close> on a list: out of range is an IndexError, here \<open>None\<close>.\<close>

definition index :: "'a list \<Rightarrow> nat \<Rightarrow> 'a option" where
  "index xs i = (if i < length xs then Some (xs ! i) else None)"

text \<open>\<^verbatim>\<open>str(n)\<close> of a natural number.\<close>

definition digit :: "nat \<Rightarrow> char" where
  "digit n = ''0123456789'' ! (n mod 10)"

function str_nat :: "nat \<Rightarrow> string" where
  "str_nat n = (if n < 10 then [digit n] else str_nat (n div 10) @ [digit n])"
  by pat_completeness auto
termination
  by (relation "measure id") auto

declare str_nat.simps [simp del]

text \<open>\<^verbatim>\<open>re.compile('/user/[a-zA-Z]|[0-9]/profile').search(s)\<close>: the pattern is an
  alternation of \<^verbatim>\<open>/user/[a-zA-Z]\<close> and \<^verbatim>\<open>[0-9]/profile\<close>, tried at every position.\<close>

definition match_user :: "string \<Rightarrow> bool" where
  "match_user s =
     (take 6 s = ''/user/'' \<and> (case drop 6 s of [] \<Rightarrow> False | c # _ \<Rightarrow> isalpha_ascii c))"

definition match_profile :: "string \<Rightarrow> bool" where
  "match_profile s =
     (case s of [] \<Rightarrow> False | c # cs \<Rightarrow> isdigit c \<and> take 8 cs = ''/profile'')"

fun re_search :: "string \<Rightarrow> bool" where
  "re_search [] = False"
| "re_search (c # cs) = (match_user (c # cs) \<or> match_profile (c # cs) \<or> re_search cs)"

section \<open>Dates\<close>

text \<open>
  \<open>Datetime y m d H M S\<close> is \<^verbatim>\<open>datetime(y, m, d, H, M, S)\<close>. The source parses with
  \<^verbatim>\<open>datetime.strptime(s, '%a %b %d %H:%M:%S %Z %Y')\<close>; \<open>strptime\<close> below is that call
  for this one format in the C locale: six fields separated by whitespace, names
  compared without case, the weekday read and not compared with the date, the zone
  one of \<^verbatim>\<open>utc\<close>, \<^verbatim>\<open>gmt\<close> and the names of the host's own zone, and every failure
  a ValueError.
\<close>

datatype datetime = Datetime nat nat nat nat nat nat

fun words_acc :: "string \<Rightarrow> string \<Rightarrow> string list" where
  "words_acc w [] = [rev w]"
| "words_acc w (c # cs) =
     (if isspace c then
        (if cs \<noteq> [] \<and> isspace (hd cs) then words_acc w cs else rev w # words_acc [] cs)
      else words_acc (c # w) cs)"

definition date_fields :: "string \<Rightarrow> string list" where
  "date_fields s = words_acc [] s"

definition number :: "string \<Rightarrow> nat option" where
  "number s =
     (if s \<noteq> [] \<and> list_all isdigit s
      then Some (foldl (\<lambda>n c. 10 * n + (of_char c - 48)) 0 s) else None)"

definition bounded :: "nat \<Rightarrow> string \<Rightarrow> nat option" where
  "bounded hi s =
     (if length s \<le> 2 then
        (case number s of None \<Rightarrow> None | Some n \<Rightarrow> if n \<le> hi then Some n else None)
      else None)"

definition weekdays :: "string list" where
  "weekdays = [''mon'', ''tue'', ''wed'', ''thu'', ''fri'', ''sat'', ''sun'']"

definition months :: "string list" where
  "months = [''jan'', ''feb'', ''mar'', ''apr'', ''may'', ''jun'',
             ''jul'', ''aug'', ''sep'', ''oct'', ''nov'', ''dec'']"

fun position :: "'a list \<Rightarrow> 'a \<Rightarrow> nat option" where
  "position [] x = None"
| "position (y # ys) x =
     (if x = y then Some 0 else (case position ys x of None \<Rightarrow> None | Some i \<Rightarrow> Some (Suc i)))"

definition isleap :: "nat \<Rightarrow> bool" where
  "isleap y = (y mod 4 = 0 \<and> (y mod 100 \<noteq> 0 \<or> y mod 400 = 0))"

definition days_in_month :: "nat \<Rightarrow> nat \<Rightarrow> nat" where
  "days_in_month y m =
     (if m = 2 then (if isleap y then 29 else 28)
      else if m \<in> {4, 6, 9, 11} then 30 else 31)"

definition strptime :: "string list \<Rightarrow> string \<Rightarrow> datetime result" where
  "strptime tzname s =
     (case date_fields s of
        [a, b, d, hms, z, y] \<Rightarrow>
          (case (position months (lower b), bounded 31 d, map (bounded 61) (split CHR '':'' hms),
                 number y) of
             (Some mi, Some dd, [Some hh, Some mm, Some ss], Some yy) \<Rightarrow>
               if lower a \<in> set weekdays \<and> lower z \<in> set ([''utc'', ''gmt''] @ map lower tzname)
                  \<and> length y = 4 \<and> 1 \<le> yy
                  \<and> 1 \<le> dd \<and> dd \<le> days_in_month yy (Suc mi)
                  \<and> hh \<le> 23 \<and> mm \<le> 59 \<and> ss \<le> 59
               then Inr (Datetime yy (Suc mi) dd hh mm ss)
               else Inl ValueError
           | _ \<Rightarrow> Inl ValueError)
      | _ \<Rightarrow> Inl ValueError)"


section \<open>The network\<close>

text \<open>
  A request is kept as the pieces the source formats it from: the method, the site, the
  path, the query parameters and the form data. The path of the activity page is
  \<^verbatim>\<open>/user/{profile}/activity/{activity_id}\<close>, kept as its two format arguments.
\<close>

datatype http_method = GET | POST

datatype path =
    Login
  | Home
  | ActivitiesByDateRange
  | PointData
  | UserActivity string json

record request =
  meth :: http_method
  origin :: string
  target :: path
  params :: "(string \<times> json) list"
  data :: "(string \<times> string) list"

text \<open>
  The source never reads a response body itself: it hands the text to \<^verbatim>\<open>json.loads\<close>
  or to the HTML parser and asks one question. A response is therefore the answers to
  the questions the source asks:
  \<^item> \<open>cookies\<close>: \<^verbatim>\<open>response.cookies\<close>, name and value;
  \<^item> \<open>loads\<close>: \<^verbatim>\<open>json.loads(response.text)\<close>, \<open>None\<close> when it raises;
  \<^item> \<open>hidden\<close>: \<^verbatim>\<open>soup.find_all('input', {'type': 'hidden'})\<close>, each element as its
    \<^verbatim>\<open>name\<close> and \<^verbatim>\<open>value\<close> attributes (\<open>None\<close> for an attribute it lacks);
  \<^item> \<open>anchors\<close>: the \<^verbatim>\<open>href\<close> of every \<^verbatim>\<open>a\<close> element that has one, in document order;
  \<^item> \<open>subtitle\<close>: the children of
    \<^verbatim>\<open>soup.find('div', {'class': 'micro-text activitySubTitle'})\<close>, \<open>None\<close> when there
    is no such element.
\<close>

datatype child = NavigableString string | Tag

record response =
  cookies :: "(string \<times> string) list"
  loads :: "json option"
  hidden :: "(string option \<times> string option) list"
  anchors :: "string list"
  subtitle :: "child list option"

text \<open>
  The world outside the program: \<open>respond w n rq\<close> is what the \<open>n\<close>-th request of a
  session gets when it is \<open>rq\<close> (\<open>None\<close>: the transport fails and the HTTP library
  raises), \<open>tzname\<close> is the host's \<^verbatim>\<open>time.tzname\<close>, \<open>today_year\<close> is
  \<^verbatim>\<open>datetime.today().year\<close>.
\<close>

record world =
  respond :: "nat \<Rightarrow> request \<Rightarrow> response option"
  tzname :: "string list"
  today_year :: nat

text \<open>
  \<^verbatim>\<open>requests.Session\<close>: the cookie jar, and every request made through the session
  so far (also those whose transport failed). A response's cookies are put in front of
  the jar, where a lookup finds them first.
\<close>

record session =
  jar :: "(string \<times> string) list"
  sent :: "request list"

definition send :: "world \<Rightarrow> request \<Rightarrow> session \<Rightarrow> response option \<times> session" where
  "send w rq s =
     (case respond w (length (sent s)) rq of
        None \<Rightarrow> (None, s\<lparr>sent := sent s @ [rq]\<rparr>)
      | Some r \<Rightarrow>
          (Some r, s\<lparr>jar := cookies r @ jar s, sent := sent s @ [rq]\<rparr>))"

section \<open>Class Runkeeper\<close>

text \<open>The field \<open>Runkeeper__profile_username\<close> is \<^verbatim>\<open>self.__profile_username\<close>.\<close>

record runkeeper =
  email :: string
  password :: string
  session :: session
  site :: string
  Runkeeper__profile_username :: string

text \<open>
  A method takes the object and returns the object as the call left it, together with
  the value returned or the exception raised.
\<close>

fun hidden_dict ::
  "(string option \<times> string option) list \<Rightarrow> (string \<times> string) list \<Rightarrow> (string \<times> string) list result"
where
  "hidden_dict [] d = Inr d"
| "hidden_dict ((Some n, Some v) # es) d = hidden_dict es (AList.update n v d)"
| "hidden_dict (_ # es) d = Inl KeyError"

definition get_hidden_elements ::
  "world \<Rightarrow> runkeeper \<Rightarrow> (string \<times> string) list result \<times> runkeeper" where
  "get_hidden_elements w rk =
     (case send w \<lparr>meth = GET, origin = site rk, target = Login, params = [], data = []\<rparr>
             (session rk) of
        (None, s) \<Rightarrow> (Inl RequestException, rk\<lparr>session := s\<rparr>)
      | (Some login_form, s) \<Rightarrow> (hidden_dict (hidden login_form) [], rk\<lparr>session := s\<rparr>))"

definition authenticate :: "world \<Rightarrow> runkeeper \<Rightarrow> bool result \<times> runkeeper" where
  "authenticate w rk =
     (case get_hidden_elements w rk of
        (Inl e, rk1) \<Rightarrow> (Inl e, rk1)
      | (Inr hidden_elements, rk1) \<Rightarrow>
          (case send w \<lparr>meth = POST, origin = site rk1, target = Login, params = [],
                        data = AList.update ''password'' (password rk1)
                                 (AList.update ''email'' (email rk1) hidden_elements)\<rparr>
                  (session rk1) of
             (None, s) \<Rightarrow> (Inl EndpointConnectionError, rk1\<lparr>session := s\<rparr>)
           | (Some valid_authentication, s) \<Rightarrow>
               (case map_of (cookies valid_authentication) ''checker'' of
                  None \<Rightarrow> (Inl InvalidAuhentication, rk1\<lparr>session := s\<rparr>)
                | Some c \<Rightarrow>
                    if c = [] then (Inl InvalidAuhentication, rk1\<lparr>session := s\<rparr>)
                    else (Inr True, rk1\<lparr>session := s\<rparr>))))"

text \<open>The constructor: a failed authentication leaves no object.\<close>

definition Runkeeper :: "world \<Rightarrow> string \<Rightarrow> string \<Rightarrow> runkeeper result" where
  "Runkeeper w e p =
     (case authenticate w \<lparr>email = e, password = p, session = \<lparr>jar = [], sent = []\<rparr>,
                           site = ''https://runkeeper.com'', Runkeeper__profile_username = []\<rparr> of
        (Inl err, rk) \<Rightarrow> Inl err
      | (Inr ok, rk) \<Rightarrow> Inr rk)"

definition profile_username :: "world \<Rightarrow> runkeeper \<Rightarrow> string result \<times> runkeeper" where
  "profile_username w rk =
     (if Runkeeper__profile_username rk = [] then
        (case send w \<lparr>meth = GET, origin = site rk, target = Home, params = [], data = []\<rparr>
                (session rk) of
           (None, s) \<Rightarrow> (Inl EndpointConnectionError, rk\<lparr>session := s\<rparr>)
         | (Some home, s) \<Rightarrow>
             (case find re_search (anchors home) of
                None \<Rightarrow> (Inl AttributeError, rk\<lparr>session := s\<rparr>)
              | Some href \<Rightarrow>
                  (case index (split CHR ''/'' href) 2 of
                     None \<Rightarrow> (Inl ProfileNotFound, rk\<lparr>session := s\<rparr>)
                   | Some u \<Rightarrow> (Inr u, rk\<lparr>session := s, Runkeeper__profile_username := u\<rparr>))))
      else (Inr (Runkeeper__profile_username rk), rk))"

section \<open>Class Activity\<close>

text \<open>
  The summary fields are what \<^verbatim>\<open>info.get\<close> returned; the four statistics are JSON values
  with \<open>JNull\<close> for \<^verbatim>\<open>None\<close>; \<open>Activity__datetime\<close> is \<open>None\<close> or a datetime object.
  The object's references to the manager and to its session are the \<open>runkeeper\<close>
  argument of each method.
\<close>

record activity =
  username :: json
  distance :: json
  activity_id :: json
  distance_units :: json
  elapsed_time :: json
  live :: json
  caption :: json
  activity_type :: json
  Activity__statsCalories :: json
  Activity__statsElevation :: json
  Activity__statsPace :: json
  Activity__statsSpeed :: json
  Activity__datetime :: "datetime option"

text \<open>The constructor calls \<^verbatim>\<open>info.get\<close> eight times; the first call raises AttributeError
  when \<open>info\<close> is not a dictionary, which the handler for KeyError does not catch.\<close>

definition Activity :: "json \<Rightarrow> activity result" where
  "Activity info =
     (case info of
        JObj kvs \<Rightarrow>
          Inr \<lparr>username = dict_get kvs ''username'',
               distance = dict_get kvs ''distance'',
               activity_id = dict_get kvs ''activity_id'',
               distance_units = dict_get kvs ''distanceUnits'',
               elapsed_time = dict_get kvs ''elapsedTime'',
               live = dict_get kvs ''live'',
               caption = dict_get kvs ''mainText'',
               activity_type = dict_get kvs ''type'',
               Activity__statsCalories = JNull,
               Activity__statsElevation = JNull,
               Activity__statsPace = JNull,
               Activity__statsSpeed = JNull,
               Activity__datetime = None\<rparr>
      | _ \<Rightarrow> Inl AttributeError)"

text \<open>\<^verbatim>\<open>year or str(datetime.today().year)\<close>: \<^verbatim>\<open>None\<close> and the empty string are false.\<close>

definition year_or_today :: "world \<Rightarrow> string option \<Rightarrow> string" where
  "year_or_today w year =
     (case year of
        None \<Rightarrow> str_nat (today_year w)
      | Some y \<Rightarrow> if y = [] then str_nat (today_year w) else y)"

definition activities_of :: "json \<Rightarrow> string \<Rightarrow> string \<Rightarrow> json list result" where
  "activities_of activities_month year month =
     (case py_getitem activities_month year of
        Inl e \<Rightarrow> Inl e
      | Inr by_month \<Rightarrow>
          (case py_getitem by_month month of
             Inl e \<Rightarrow> Inl e
           | Inr entries \<Rightarrow> py_iter entries))"

definition get_activities_month ::
  "world \<Rightarrow> string \<Rightarrow> string option \<Rightarrow> runkeeper \<Rightarrow> activity list result \<times> runkeeper" where
  "get_activities_month w month year rk =
     (case profile_username w rk of
        (Inl e, rk1) \<Rightarrow> (Inl e, rk1)
      | (Inr user, rk1) \<Rightarrow>
          (case send w \<lparr>meth = GET, origin = site rk1, target = ActivitiesByDateRange,
                        params = [(''userName'', JStr user),
                                  (''startDate'', JStr (month @ ''-01-'' @ year_or_today w year))],
                        data = []\<rparr>
                  (session rk1) of
             (None, s) \<Rightarrow> (Inl EndpointConnectionError, rk1\<lparr>session := s\<rparr>)
           | (Some activities_month_request, s) \<Rightarrow>
               (case (case loads activities_month_request of
                        None \<Rightarrow> None
                      | Some j \<Rightarrow> (case py_getitem j ''activities'' of
                                     Inl e \<Rightarrow> None | Inr v \<Rightarrow> Some v)) of
                  None \<Rightarrow> (Inl NoActivitiesFound, rk1\<lparr>session := s\<rparr>)
                | Some activities_month \<Rightarrow>
                    if \<not> truthy activities_month then (Inl NoActivityInMonth, rk1\<lparr>session := s\<rparr>)
                    else
                      (case activities_of activities_month (year_or_today w year) month of
                         Inl e \<Rightarrow> (Inl e, rk1\<lparr>session := s\<rparr>)
                       | Inr activity_details \<Rightarrow>
                           (map_result Activity activity_details, rk1\<lparr>session := s\<rparr>)))))"

text \<open>
  The methods of an activity work on the activity and on the manager it refers to:
  reading \<^verbatim>\<open>self._runkeeper.profile_username\<close> can change the manager.
\<close>

definition get_activity_details :: "world \<Rightarrow> json \<Rightarrow> runkeeper \<Rightarrow> json result \<times> runkeeper" where
  "get_activity_details w aid rk =
     (case send w \<lparr>meth = GET, origin = site rk, target = PointData,
                   params = [(''activityId'', aid)], data = []\<rparr>
             (session rk) of
        (None, s) \<Rightarrow> (Inl EndpointConnectionError, rk\<lparr>session := s\<rparr>)
      | (Some activity_request, s) \<Rightarrow>
          (case loads activity_request of
             None \<Rightarrow> (Inl InvalidActivityId, rk\<lparr>session := s\<rparr>)
           | Some activity_details \<Rightarrow> (Inr activity_details, rk\<lparr>session := s\<rparr>)))"

text \<open>\<^verbatim>\<open>date_params.split('-')[0].rstrip()\<close> of each child of the element; a child that
  is an element has no \<^verbatim>\<open>split\<close> to call, and \<^verbatim>\<open>None\<close> cannot be iterated.\<close>

definition date_param :: "child \<Rightarrow> string result" where
  "date_param c =
     (case c of
        NavigableString date_params \<Rightarrow> Inr (rstrip (hd (split CHR ''-'' date_params)))
      | Tag \<Rightarrow> Inl TypeError)"

definition get_activity_datetime ::
  "world \<Rightarrow> json \<Rightarrow> runkeeper \<Rightarrow> datetime result \<times> runkeeper" where
  "get_activity_datetime w aid rk =
     (case profile_username w rk of
        (Inl e, rk1) \<Rightarrow> (Inl e, rk1)
      | (Inr profile, rk1) \<Rightarrow>
          (case send w \<lparr>meth = GET, origin = site rk1, target = UserActivity profile aid,
                        params = [], data = []\<rparr>
                  (session rk1) of
             (None, s) \<Rightarrow> (Inl EndpointConnectionError, rk1\<lparr>session := s\<rparr>)
           | (Some activity_datetime_session, s) \<Rightarrow>
               (case subtitle activity_datetime_session of
                  None \<Rightarrow> (Inl TypeError, rk1\<lparr>session := s\<rparr>)
                | Some form \<Rightarrow>
                    (case map_result date_param form of
                       Inl e \<Rightarrow> (Inl e, rk1\<lparr>session := s\<rparr>)
                     | Inr activity_datetime \<Rightarrow>
                         (strptime (tzname w) (concat activity_datetime),
                          rk1\<lparr>session := s\<rparr>)))))"

text \<open>\<^verbatim>\<open>_populate\<close>: the assignment to \<^verbatim>\<open>self.__datetime\<close> comes before the four
  \<^verbatim>\<open>activity_details.get\<close>, and the first of them raises when the details are not a
  dictionary.\<close>

definition populate :: "world \<Rightarrow> activity \<times> runkeeper \<Rightarrow> unit result \<times> activity \<times> runkeeper" where
  "populate w ar =
     (case ar of (a, rk) \<Rightarrow>
        (case get_activity_details w (activity_id a) rk of
           (Inl e, rk1) \<Rightarrow> (Inl e, a, rk1)
         | (Inr activity_details, rk1) \<Rightarrow>
             (case get_activity_datetime w (activity_id a) rk1 of
                (Inl e, rk2) \<Rightarrow> (Inl e, a, rk2)
              | (Inr d, rk2) \<Rightarrow>
                  (case activity_details of
                     JObj kvs \<Rightarrow>
                       (Inr (),
                        a\<lparr>Activity__datetime := Some d,
                          Activity__statsCalories := dict_get kvs ''statsCalories'',
                          Activity__statsElevation := dict_get kvs ''statsElevation'',
                          Activity__statsPace := dict_get kvs ''statsPace'',
                          Activity__statsSpeed := dict_get kvs ''statsSpeed''\<rparr>,
                        rk2)
                   | _ \<Rightarrow> (Inl AttributeError, a\<lparr>Activity__datetime := Some d\<rparr>, rk2)))))"

text \<open>The five properties. Each tests its own field for truth and populates when the
  field is false; a datetime object is always true.\<close>

definition calories :: "world \<Rightarrow> activity \<times> runkeeper \<Rightarrow> json result \<times> activity \<times> runkeeper" where
  "calories w ar =
     (if \<not> truthy (Activity__statsCalories (fst ar)) then
        (case populate w ar of
           (Inl e, ar1) \<Rightarrow> (Inl e, ar1)
         | (Inr u, ar1) \<Rightarrow> (Inr (Activity__statsCalories (fst ar1)), ar1))
      else (Inr (Activity__statsCalories (fst ar)), ar))"

definition elevation :: "world \<Rightarrow> activity \<times> runkeeper \<Rightarrow> json result \<times> activity \<times> runkeeper" where
  "elevation w ar =
     (if \<not> truthy (Activity__statsElevation (fst ar)) then
        (case populate w ar of
           (Inl e, ar1) \<Rightarrow> (Inl e, ar1)
         | (Inr u, ar1) \<Rightarrow> (Inr (Activity__statsElevation (fst ar1)), ar1))
      else (Inr (Activity__statsElevation (fst ar)), ar))"

definition pace :: "world \<Rightarrow> activity \<times> runkeeper \<Rightarrow> json result \<times> activity \<times> runkeeper" where
  "pace w ar =
     (if \<not> truthy (Activity__statsPace (fst ar)) then
        (case populate w ar of
           (Inl e, ar1) \<Rightarrow> (Inl e, ar1)
         | (Inr u, ar1) \<Rightarrow> (Inr (Activity__statsPace (fst ar1)), ar1))
      else (Inr (Activity__statsPace (fst ar)), ar))"

definition speed :: "world \<Rightarrow> activity \<times> runkeeper \<Rightarrow> json result \<times> activity \<times> runkeeper" where
  "speed w ar =
     (if \<not> truthy (Activity__statsSpeed (fst ar)) then
        (case populate w ar of
           (Inl e, ar1) \<Rightarrow> (Inl e, ar1)
         | (Inr u, ar1) \<Rightarrow> (Inr (Activity__statsSpeed (fst ar1)), ar1))
      else (Inr (Activity__statsSpeed (fst ar)), ar))"

definition datetime ::
  "world \<Rightarrow> activity \<times> runkeeper \<Rightarrow> datetime option result \<times> activity \<times> runkeeper" where
  "datetime w ar =
     (if Activity__datetime (fst ar) = None then
        (case populate w ar of
           (Inl e, ar1) \<Rightarrow> (Inl e, ar1)
         | (Inr u, ar1) \<Rightarrow> (Inr (Activity__datetime (fst ar1)), ar1))
      else (Inr (Activity__datetime (fst ar)), ar))"


section \<open>Vocabulary of the properties\<close>

text \<open>The six requests the source builds, by the values formatted into them.\<close>

definition login_page_request :: "string \<Rightarrow> request" where
  "login_page_request st = \<lparr>meth = GET, origin = st, target = Login, params = [], data = []\<rparr>"

definition login_post_request :: "string \<Rightarrow> (string \<times> string) list \<Rightarrow> request" where
  "login_post_request st d = \<lparr>meth = POST, origin = st, target = Login, params = [], data = d\<rparr>"

definition home_request :: "string \<Rightarrow> request" where
  "home_request st = \<lparr>meth = GET, origin = st, target = Home, params = [], data = []\<rparr>"

definition listing_request :: "string \<Rightarrow> string \<Rightarrow> string \<Rightarrow> request" where
  "listing_request st user start_date =
     \<lparr>meth = GET, origin = st, target = ActivitiesByDateRange,
      params = [(''userName'', JStr user), (''startDate'', JStr start_date)], data = []\<rparr>"

definition detail_request :: "string \<Rightarrow> json \<Rightarrow> request" where
  "detail_request st aid =
     \<lparr>meth = GET, origin = st, target = PointData, params = [(''activityId'', aid)], data = []\<rparr>"

definition page_request :: "string \<Rightarrow> string \<Rightarrow> json \<Rightarrow> request" where
  "page_request st profile aid =
     \<lparr>meth = GET, origin = st, target = UserActivity profile aid, params = [], data = []\<rparr>"

text \<open>The requests a manager's session has made, and how many of them went to the
  home page, to the detail endpoint and to an activity page.\<close>

definition requests :: "runkeeper \<Rightarrow> request list" where
  "requests rk = sent (session rk)"

definition is_page :: "path \<Rightarrow> bool" where
  "is_page p = (case p of UserActivity u i \<Rightarrow> True | _ \<Rightarrow> False)"

definition home_fetches :: "runkeeper \<Rightarrow> nat" where
  "home_fetches rk = length (filter (\<lambda>rq. target rq = Home) (requests rk))"

definition detail_fetches :: "runkeeper \<Rightarrow> nat" where
  "detail_fetches rk = length (filter (\<lambda>rq. target rq = PointData) (requests rk))"

definition page_fetches :: "runkeeper \<Rightarrow> nat" where
  "page_fetches rk = length (filter (\<lambda>rq. is_page (target rq)) (requests rk))"

text \<open>The five lazy properties under one name, so that a statement can speak of any of
  them: \<open>access w p\<close> is the property \<open>p\<close> of the source, \<open>cached p a\<close> the field it
  returns and \<open>cached_true p a\<close> the test it makes on that field.\<close>

datatype property = Calories | Elevation | Pace | Speed | Timestamp

datatype pyvalue = Stat json | Stamp "datetime option"

definition tag_result ::
  "('a \<Rightarrow> pyvalue) \<Rightarrow> 'a result \<times> activity \<times> runkeeper \<Rightarrow> pyvalue result \<times> activity \<times> runkeeper"
where
  "tag_result f x = (case x of (r, ar) \<Rightarrow> ((case r of Inl e \<Rightarrow> Inl e | Inr v \<Rightarrow> Inr (f v)), ar))"

definition access ::
  "world \<Rightarrow> property \<Rightarrow> activity \<times> runkeeper \<Rightarrow> pyvalue result \<times> activity \<times> runkeeper" where
  "access w p ar =
     (case p of
        Calories \<Rightarrow> tag_result Stat (calories w ar)
      | Elevation \<Rightarrow> tag_result Stat (elevation w ar)
      | Pace \<Rightarrow> tag_result Stat (pace w ar)
      | Speed \<Rightarrow> tag_result Stat (speed w ar)
      | Timestamp \<Rightarrow> tag_result Stamp (datetime w ar))"

definition cached :: "property \<Rightarrow> activity \<Rightarrow> pyvalue" where
  "cached p a =
     (case p of
        Calories \<Rightarrow> Stat (Activity__statsCalories a)
      | Elevation \<Rightarrow> Stat (Activity__statsElevation a)
      | Pace \<Rightarrow> Stat (Activity__statsPace a)
      | Speed \<Rightarrow> Stat (Activity__statsSpeed a)
      | Timestamp \<Rightarrow> Stamp (Activity__datetime a))"

definition cached_true :: "property \<Rightarrow> activity \<Rightarrow> bool" where
  "cached_true p a =
     (case cached p a of Stat j \<Rightarrow> truthy j | Stamp None \<Rightarrow> False | Stamp (Some d) \<Rightarrow> True)"

text \<open>A fresh record: the five caches as the constructor leaves them.\<close>

definition unpopulated :: "activity \<Rightarrow> bool" where
  "unpopulated a =
     (Activity__statsCalories a = JNull \<and> Activity__statsElevation a = JNull
      \<and> Activity__statsPace a = JNull \<and> Activity__statsSpeed a = JNull
      \<and> Activity__datetime a = None)"

text \<open>What a property does when its field tests false: populate, then return the field.\<close>

definition populate_then ::
  "world \<Rightarrow> property \<Rightarrow> activity \<times> runkeeper \<Rightarrow> pyvalue result \<times> activity \<times> runkeeper" where
  "populate_then w p ar =
     (case populate w ar of
        (Inl e, ar1) \<Rightarrow> (Inl e, ar1)
      | (Inr u, ar1) \<Rightarrow> (Inr (cached p (fst ar1)), ar1))"

text \<open>The exception that one of the two fetches of a population pass raises, if one does.\<close>

definition fetch_error :: "world \<Rightarrow> activity \<Rightarrow> runkeeper \<Rightarrow> error option" where
  "fetch_error w a rk =
     (case get_activity_details w (activity_id a) rk of
        (Inl e, rk1) \<Rightarrow> Some e
      | (Inr activity_details, rk1) \<Rightarrow>
          (case get_activity_datetime w (activity_id a) rk1 of
             (Inl e, rk2) \<Rightarrow> Some e
           | (Inr d, rk2) \<Rightarrow> None))"

text \<open>Reading \<open>profile_username\<close> \<open>n\<close> times in a row.\<close>

fun read_profile :: "world \<Rightarrow> nat \<Rightarrow> runkeeper \<Rightarrow> runkeeper" where
  "read_profile w 0 rk = rk"
| "read_profile w (Suc n) rk = read_profile w n (snd (profile_username w rk))"

section \<open>A sample service\<close>

text \<open>
  Concrete responses and servers on which the statements below are exercised: a login
  page with two hidden inputs, a login response that sets the cookie, a home page that
  links to the profile of \<open>john\<close>, a listing with two activities in January 2024, the
  detail blob of one activity and its page.
\<close>

definition blank :: response where
  "blank = \<lparr>cookies = [], loads = None, hidden = [], anchors = [], subtitle = None\<rparr>"

definition login_page :: response where
  "login_page = blank\<lparr>hidden := [(Some ''_eventName'', Some ''submit''),
                                   (Some ''redirectUrl'', Some ''/home'')]\<rparr>"

definition login_ok :: response where
  "login_ok = blank\<lparr>cookies := [(''checker'', ''1'')]\<rparr>"

definition home_page :: response where
  "home_page = blank\<lparr>anchors := [''/about'', ''/user/john/profile'']\<rparr>"

definition run1 :: json where
  "run1 = JObj [(''username'', JStr ''john''), (''distance'', JStr ''3.1''),
                (''activity_id'', JInt 101), (''distanceUnits'', JStr ''mi''),
                (''elapsedTime'', JStr ''28:10''), (''live'', JBool False),
                (''mainText'', JStr ''Morning run''), (''type'', JStr ''RUN'')]"

definition run2 :: json where
  "run2 = JObj [(''username'', JStr ''john''), (''distance'', JStr ''5.0''),
                (''activity_id'', JInt 102), (''distanceUnits'', JStr ''mi''),
                (''elapsedTime'', JStr ''45:00''), (''live'', JBool False),
                (''type'', JStr ''WALK'')]"

definition january :: json where
  "january = JObj [(''activities'', JObj [(''2024'', JObj [(''Jan'', JArr [run1, run2])])])]"

definition stats :: json where
  "stats = JObj [(''statsCalories'', JInt 120), (''statsElevation'', JInt 5),
                 (''statsPace'', JStr ''5:30''), (''statsSpeed'', JFloat 10.9)]"

definition activity_page :: response where
  "activity_page =
     blank\<lparr>subtitle := Some [NavigableString ''Mon Jan 05 14:30:00 UTC 2024 - 3.1 mi'']\<rparr>"

definition serve :: "request \<Rightarrow> response option" where
  "serve rq =
     (case target rq of
        Login \<Rightarrow> if meth rq = GET then Some login_page else Some login_ok
      | Home \<Rightarrow> Some home_page
      | ActivitiesByDateRange \<Rightarrow> Some (blank\<lparr>loads := Some january\<rparr>)
      | PointData \<Rightarrow> Some (blank\<lparr>loads := Some stats\<rparr>)
      | UserActivity u i \<Rightarrow> Some activity_page)"

definition service :: world where
  "service = \<lparr>respond = (\<lambda>n rq. serve rq), tzname = [''CET'', ''CEST''], today_year = 2024\<rparr>"

text \<open>\<open>answering p r\<close> is the service with the answer to every request for \<open>p\<close> replaced
  by \<open>r\<close> (\<open>None\<close>: the transport fails); \<open>failing_at k\<close> is the service with the
  transport of request number \<open>k\<close> failing.\<close>

definition answering :: "path \<Rightarrow> http_method \<Rightarrow> response option \<Rightarrow> world" where
  "answering p m r =
     service\<lparr>respond := (\<lambda>n rq. if target rq = p \<and> meth rq = m then r else serve rq)\<rparr>"

definition failing_at :: "nat \<Rightarrow> world" where
  "failing_at k = service\<lparr>respond := (\<lambda>n rq. if n = k then None else serve rq)\<rparr>"

text \<open>The manager that \<open>Runkeeper service\<close> constructs, the same manager once it knows its
  profile, and the record of the first activity of the listing.\<close>

definition credentials :: "(string \<times> string) list" where
  "credentials = [(''_eventName'', ''submit''), (''redirectUrl'', ''/home''),
                  (''email'', ''john@example.org''), (''password'', ''secret'')]"

definition manager :: runkeeper where
  "manager =
     \<lparr>email = ''john@example.org'', password = ''secret'',
      session = \<lparr>jar = [(''checker'', ''1'')],
                 sent = [login_page_request ''https://runkeeper.com'',
                         login_post_request ''https://runkeeper.com'' credentials]\<rparr>,
      site = ''https://runkeeper.com'', Runkeeper__profile_username = []\<rparr>"

definition resolved :: runkeeper where
  "resolved =
     manager\<lparr>session := \<lparr>jar = [(''checker'', ''1'')],
                           sent = requests manager @ [home_request ''https://runkeeper.com'']\<rparr>,
             Runkeeper__profile_username := ''john''\<rparr>"

definition record1 :: activity where
  "record1 =
     \<lparr>username = JStr ''john'', distance = JStr ''3.1'', activity_id = JInt 101,
      distance_units = JStr ''mi'', elapsed_time = JStr ''28:10'', live = JBool False,
      caption = JStr ''Morning run'', activity_type = JStr ''RUN'',
      Activity__statsCalories = JNull, Activity__statsElevation = JNull,
      Activity__statsPace = JNull, Activity__statsSpeed = JNull, Activity__datetime = None\<rparr>"

definition record2 :: activity where
  "record2 =
     \<lparr>username = JStr ''john'', distance = JStr ''5.0'', activity_id = JInt 102,
      distance_units = JStr ''mi'', elapsed_time = JStr ''45:00'', live = JBool False,
      caption = JNull, activity_type = JStr ''WALK'',
      Activity__statsCalories = JNull, Activity__statsElevation = JNull,
      Activity__statsPace = JNull, Activity__statsSpeed = JNull, Activity__datetime = None\<rparr>"

definition populated1 :: activity where
  "populated1 =
     record1\<lparr>Activity__statsCalories := JInt 120, Activity__statsElevation := JInt 5,
             Activity__statsPace := JStr ''5:30'', Activity__statsSpeed := JFloat 10.9,
             Activity__datetime := Some (Datetime 2024 1 5 14 30 0)\<rparr>"

text \<open>The manager after the first activity has been populated, and detail blobs that are
  not what the client hopes for: one with a zero statistic, one that is not an object.\<close>

definition fetched :: runkeeper where
  "fetched =
     resolved\<lparr>session := \<lparr>jar = [(''checker'', ''1'')],
                            sent = requests resolved
                                     @ [detail_request ''https://runkeeper.com'' (JInt 101),
                                        page_request ''https://runkeeper.com'' ''john'' (JInt 101)]\<rparr>\<rparr>"

definition resting :: json where
  "resting = JObj [(''statsCalories'', JInt 0), (''statsElevation'', JInt 5),
                   (''statsPace'', JStr ''5:30''), (''statsSpeed'', JFloat 10.9)]"

definition zero_calories :: world where
  "zero_calories = answering PointData GET (Some (blank\<lparr>loads := Some resting\<rparr>))"

definition details_a_list :: world where
  "details_a_list = answering PointData GET (Some (blank\<lparr>loads := Some (JArr [])\<rparr>))"

definition details_malformed :: world where
  "details_malformed = answering PointData GET (Some blank)"

text \<open>The first record populated from the blob with the zero statistic, and the manager
  after a second population of the same record.\<close>

definition rested :: activity where
  "rested =
     record1\<lparr>Activity__statsCalories := JInt 0, Activity__statsElevation := JInt 5,
             Activity__statsPace := JStr ''5:30'', Activity__statsSpeed := JFloat 10.9,
             Activity__datetime := Some (Datetime 2024 1 5 14 30 0)\<rparr>"

definition fetched_twice :: runkeeper where
  "fetched_twice =
     resolved\<lparr>session := \<lparr>jar = [(''checker'', ''1'')],
                            sent = requests fetched
                                     @ [detail_request ''https://runkeeper.com'' (JInt 101),
                                        page_request ''https://runkeeper.com'' ''john'' (JInt 101)]\<rparr>\<rparr>"


section \<open>Basic facts\<close>

lemma send_sent: "sent (snd (send w rq s)) = sent s @ [rq]"
  by (simp add: send_def split: option.splits)

lemma profile_username_cached:
  "Runkeeper__profile_username rk \<noteq> [] \<Longrightarrow>
   profile_username w rk = (Inr (Runkeeper__profile_username rk), rk)"
  by (simp add: profile_username_def)

lemma profile_username_requests:
  "requests (snd (profile_username w rk)) =
     requests rk @ (if Runkeeper__profile_username rk = [] then [home_request (site rk)] else [])"
  by (simp add: profile_username_def requests_def home_request_def send_def
           split: option.splits prod.splits)

lemma profile_username_site: "site (snd (profile_username w rk)) = site rk"
  by (simp add: profile_username_def send_def split: option.splits prod.splits)

lemma profile_username_errors:
  "profile_username w rk = (Inl e, rk1) \<Longrightarrow>
     e \<in> {EndpointConnectionError, AttributeError, ProfileNotFound}
     \<and> Runkeeper__profile_username rk = []"
  by (auto simp add: profile_username_def send_def split: option.splits prod.splits if_splits)

lemma service_constructs: "Runkeeper service ''john@example.org'' ''secret'' = Inr manager"
  by (simp add: Runkeeper_def authenticate_def get_hidden_elements_def send_def service_def
        serve_def login_page_def login_ok_def blank_def manager_def credentials_def
        login_page_request_def login_post_request_def)

lemma service_resolves: "profile_username service manager = (Inr ''john'', resolved)"
  by (simp add: profile_username_def send_def service_def serve_def home_page_def blank_def
        manager_def resolved_def requests_def home_request_def login_page_request_def
        login_post_request_def index_def match_user_def match_profile_def isalpha_ascii_def
        isdigit_def)


section \<open>Authentication\<close>

text \<open>
  C3. A transport failure on either request of the login is claimed to raise
  EndpointConnectionError. The form submission is guarded and does raise it; the fetch
  of the login page in \<^verbatim>\<open>__get_hidden_elements\<close> is not guarded, and the HTTP
  library's own exception leaves the constructor. Evaluated on a service whose first
  request fails, and on one whose form submission fails.
\<close>

theorem login_page_failure_escapes:
  "Runkeeper (failing_at 0) ''john@example.org'' ''secret'' = Inl RequestException
   \<and> Runkeeper (failing_at 1) ''john@example.org'' ''secret'' = Inl EndpointConnectionError"
  by (simp add: Runkeeper_def authenticate_def get_hidden_elements_def send_def failing_at_def
        service_def serve_def login_page_def blank_def)

text \<open>
  C7 as stated: the constructor succeeds exactly when the login response sets the
  cookie \<^verbatim>\<open>checker\<close>. The source tests the cookie's value for truth, so a response that
  sets the cookie to the empty string is refused.
\<close>

theorem empty_cookie_refused:
  "map_of (cookies (blank\<lparr>cookies := [(''checker'', [])]\<rparr>)) ''checker'' \<noteq> None
   \<and> Runkeeper (answering Login POST (Some (blank\<lparr>cookies := [(''checker'', [])]\<rparr>)))
        ''john@example.org'' ''secret'' = Inl InvalidAuhentication"
  by (simp add: Runkeeper_def authenticate_def get_hidden_elements_def send_def answering_def
        service_def serve_def login_page_def blank_def)

text \<open>
  C7, amended. When both requests of the login are answered and every hidden input has
  a name and a value, the constructor succeeds exactly when the login response sets
  the cookie \<^verbatim>\<open>checker\<close> to a non-empty value. Otherwise it raises
  InvalidAuhentication; on success the manager keeps the session: the two requests
  made and the cookies of both responses in its jar, the cookie \<^verbatim>\<open>checker\<close> among them.
\<close>

theorem authentication_cookie_gate:
  assumes page: "respond w 0 (login_page_request ''https://runkeeper.com'') = Some form"
    and inputs: "hidden_dict (hidden form) [] = Inr hidden_elements"
    and post: "respond w 1 (login_post_request ''https://runkeeper.com''
                 (AList.update ''password'' p (AList.update ''email'' e hidden_elements)))
               = Some answer"
  shows "((\<exists>rk. Runkeeper w e p = Inr rk)
            = (\<exists>c. map_of (cookies answer) ''checker'' = Some c \<and> c \<noteq> []))
       \<and> ((\<forall>c. map_of (cookies answer) ''checker'' = Some c \<longrightarrow> c = []) \<longrightarrow>
             Runkeeper w e p = Inl InvalidAuhentication)
       \<and> (\<forall>c. map_of (cookies answer) ''checker'' = Some c \<and> c \<noteq> [] \<longrightarrow>
             Runkeeper w e p =
               Inr \<lparr>email = e, password = p,
                    session = \<lparr>jar = cookies answer @ cookies form,
                               sent = [login_page_request ''https://runkeeper.com'',
                                       login_post_request ''https://runkeeper.com''
                                         (AList.update ''password'' p
                                            (AList.update ''email'' e hidden_elements))]\<rparr>,
                    site = ''https://runkeeper.com'', Runkeeper__profile_username = []\<rparr>
             \<and> map_of (cookies answer @ cookies form) ''checker'' = Some c)"
proof -
  let ?rk0 = "\<lparr>email = e, password = p, session = \<lparr>jar = [], sent = []\<rparr>,
               site = ''https://runkeeper.com'', Runkeeper__profile_username = []\<rparr>"
  let ?rk1 = "?rk0\<lparr>session := \<lparr>jar = cookies form,
                 sent = [login_page_request ''https://runkeeper.com'']\<rparr>\<rparr>"
  have hid: "get_hidden_elements w ?rk0 = (Inr hidden_elements, ?rk1)"
    using page inputs
    by (simp add: get_hidden_elements_def send_def login_page_request_def)
  have auth: "authenticate w ?rk0 =
      (case map_of (cookies answer) ''checker'' of
         None \<Rightarrow> Inl InvalidAuhentication
       | Some c \<Rightarrow> if c = [] then Inl InvalidAuhentication else Inr True,
       ?rk1\<lparr>session := \<lparr>jar = cookies answer @ cookies form,
                  sent = [login_page_request ''https://runkeeper.com'',
                          login_post_request ''https://runkeeper.com''
                            (AList.update ''password'' p
                               (AList.update ''email'' e hidden_elements))]\<rparr>\<rparr>)"
    using post
    by (simp add: authenticate_def hid send_def login_post_request_def
          login_page_request_def split: option.splits)
  show ?thesis
    by (cases "map_of (cookies answer) ''checker''")
       (simp_all add: Runkeeper_def auth)
qed

theorem authentication_cookie_gate_witness:
  "Runkeeper service ''john@example.org'' ''secret'' = Inr manager
   \<and> map_of (jar (session manager)) ''checker'' = Some ''1''
   \<and> Runkeeper (answering Login POST (Some blank)) ''john@example.org'' ''secret''
       = Inl InvalidAuhentication"
proof -
  have page: "respond service 0 (login_page_request ''https://runkeeper.com'') = Some login_page"
    by (simp add: service_def serve_def login_page_request_def)
  have inputs: "hidden_dict (hidden login_page) [] =
      Inr [(''_eventName'', ''submit''), (''redirectUrl'', ''/home'')]"
    by (simp add: login_page_def blank_def)
  have post: "respond service 1 (login_post_request ''https://runkeeper.com''
      (AList.update ''password'' ''secret'' (AList.update ''email'' ''john@example.org''
         [(''_eventName'', ''submit''), (''redirectUrl'', ''/home'')]))) = Some login_ok"
    by (simp add: service_def serve_def login_post_request_def)
  have page': "respond (answering Login POST (Some blank)) 0
      (login_page_request ''https://runkeeper.com'') = Some login_page"
    by (simp add: answering_def service_def serve_def login_page_request_def)
  have post': "respond (answering Login POST (Some blank)) 1
      (login_post_request ''https://runkeeper.com''
      (AList.update ''password'' ''secret'' (AList.update ''email'' ''john@example.org''
         [(''_eventName'', ''submit''), (''redirectUrl'', ''/home'')]))) = Some blank"
    by (simp add: answering_def service_def serve_def login_post_request_def)
  have ok: "Runkeeper service ''john@example.org'' ''secret'' = Inr manager"
    using authentication_cookie_gate [OF page inputs post]
    by (simp add: login_ok_def login_page_def blank_def manager_def credentials_def)
  have no: "Runkeeper (answering Login POST (Some blank)) ''john@example.org'' ''secret''
       = Inl InvalidAuhentication"
    using authentication_cookie_gate [OF page' inputs post']
    by (simp add: blank_def)
  show ?thesis
    using ok no by (simp add: manager_def)
qed


section \<open>The profile identifier\<close>

text \<open>
  C5. A first read of \<open>profile_username\<close> is claimed to raise ProfileNotFound both when
  no link of the home page matches the pattern and when the matched link has no third
  path segment. The second holds: the IndexError of \<^verbatim>\<open>split('/')[2]\<close> is caught and
  turned into ProfileNotFound. The first does not: \<^verbatim>\<open>soup.find\<close> returns \<^verbatim>\<open>None\<close>, and
  \<^verbatim>\<open>profile_url.attrs\<close> raises AttributeError outside what the handler catches.
  Evaluated on a home page whose only link is \<^verbatim>\<open>/about\<close>, and on one whose link is
  \<^verbatim>\<open>7/profile\<close>.
\<close>

theorem missing_profile_link_escapes:
  "fst (profile_username (answering Home GET (Some (blank\<lparr>anchors := [''/about'']\<rparr>))) manager)
     = Inl AttributeError
   \<and> fst (profile_username (answering Home GET (Some (blank\<lparr>anchors := [''7/profile'']\<rparr>)))
            manager)
     = Inl ProfileNotFound"
  by (simp add: profile_username_def send_def answering_def service_def blank_def manager_def
        index_def match_user_def match_profile_def isalpha_ascii_def isdigit_def)

text \<open>
  C6 as stated: \<open>profile_username\<close> issues at most one network request over any number
  of reads. A read that fails caches nothing, so the next read asks again: on a service
  whose third request fails (the first two are the login), three reads fetch the home
  page twice, the first raising EndpointConnectionError and the other two returning
  \<open>john\<close>.
\<close>

theorem failed_read_fetches_again:
  "fst (profile_username (failing_at 2) manager) = Inl EndpointConnectionError
   \<and> fst (profile_username (failing_at 2) (read_profile (failing_at 2) 1 manager)) = Inr ''john''
   \<and> fst (profile_username (failing_at 2) (read_profile (failing_at 2) 2 manager)) = Inr ''john''
   \<and> home_fetches (read_profile (failing_at 2) 3 manager) = 2"
  by (simp add: numeral_3_eq_3 numeral_2_eq_2 profile_username_def send_def failing_at_def
        service_def serve_def home_page_def blank_def manager_def home_fetches_def requests_def
        login_page_request_def login_post_request_def index_def match_user_def
        match_profile_def isalpha_ascii_def isdigit_def)

text \<open>
  C6, amended. Once a read of \<open>profile_username\<close> has returned a non-empty identifier,
  every later read of the same manager, however many and whatever the network would
  answer, returns that same string, makes no request and leaves the manager as it is.
  A read that raises, and a read that resolves the empty string, cache nothing: the
  field is still empty, and the next read, whatever the network, requests the home
  page again.
\<close>

theorem profile_username_cached_reads:
  "(\<forall>u rk1. profile_username w rk = (Inr u, rk1) \<and> u \<noteq> [] \<longrightarrow>
      (\<forall>w' n. read_profile w' n rk1 = rk1
         \<and> profile_username w' (read_profile w' n rk1) = (Inr u, rk1)
         \<and> requests (read_profile w' n rk1) = requests rk1))
   \<and> (\<forall>e rk1. profile_username w rk = (Inl e, rk1) \<longrightarrow>
      Runkeeper__profile_username rk1 = []
      \<and> (\<forall>w'. requests (snd (profile_username w' rk1))
                  = requests rk1 @ [home_request (site rk1)]))
   \<and> (\<forall>rk1. profile_username w rk = (Inr [], rk1) \<longrightarrow>
      Runkeeper__profile_username rk1 = []
      \<and> (\<forall>w'. requests (snd (profile_username w' rk1))
                  = requests rk1 @ [home_request (site rk1)]))"
proof -
  have cached: "read_profile w' n rk1 = rk1
         \<and> profile_username w' (read_profile w' n rk1) = (Inr u, rk1)
         \<and> requests (read_profile w' n rk1) = requests rk1"
    if "profile_username w rk = (Inr u, rk1)" and "u \<noteq> []" for u rk1 w' n
  proof -
    have cache: "Runkeeper__profile_username rk1 = u"
      using that
      by (auto simp add: profile_username_def send_def
            split: option.splits prod.splits if_splits)
    then have again: "profile_username w' rk1 = (Inr u, rk1)"
      using that(2) by (simp add: profile_username_cached)
    have "read_profile w' n rk1 = rk1"
      by (induction n) (simp_all add: again)
    then show ?thesis
      by (simp add: again)
  qed
  have failed: "Runkeeper__profile_username rk1 = []
      \<and> (\<forall>w'. requests (snd (profile_username w' rk1))
                  = requests rk1 @ [home_request (site rk1)])"
    if "profile_username w rk = (Inl e, rk1)" for e rk1
  proof -
    have "Runkeeper__profile_username rk1 = []"
      using that
      by (auto simp add: profile_username_def send_def
            split: option.splits prod.splits if_splits)
    then show ?thesis
      by (simp add: profile_username_requests)
  qed
  have empty: "Runkeeper__profile_username rk1 = []
      \<and> (\<forall>w'. requests (snd (profile_username w' rk1))
                  = requests rk1 @ [home_request (site rk1)])"
    if "profile_username w rk = (Inr [], rk1)" for rk1
  proof -
    have "Runkeeper__profile_username rk1 = []"
      using that
      by (auto simp add: profile_username_def send_def
            split: option.splits prod.splits if_splits)
    then show ?thesis
      by (simp add: profile_username_requests)
  qed
  show ?thesis
  proof (intro conjI allI impI)
  qed (use cached failed empty in \<open>blast+\<close>)
qed

theorem profile_username_cached_reads_witness:
  "read_profile (failing_at 3) 5 resolved = resolved
   \<and> profile_username (failing_at 3) (read_profile (failing_at 3) 5 resolved) = (Inr ''john'', resolved)
   \<and> requests (read_profile (failing_at 3) 5 resolved) = requests resolved
   \<and> fst (profile_username (failing_at 2) manager) = Inl EndpointConnectionError
   \<and> requests (snd (profile_username service (snd (profile_username (failing_at 2) manager))))
       = requests (snd (profile_username (failing_at 2) manager))
           @ [home_request ''https://runkeeper.com'']
   \<and> fst (profile_username
             (answering Home GET (Some (blank\<lparr>anchors := [''a/b//3/profile'']\<rparr>))) manager)
       = Inr []
   \<and> requests (snd (profile_username service (snd (profile_username
             (answering Home GET (Some (blank\<lparr>anchors := [''a/b//3/profile'']\<rparr>))) manager))))
       = requests (snd (profile_username
             (answering Home GET (Some (blank\<lparr>anchors := [''a/b//3/profile'']\<rparr>))) manager))
           @ [home_request ''https://runkeeper.com'']"
proof -
  let ?w = "answering Home GET (Some (blank\<lparr>anchors := [''a/b//3/profile'']\<rparr>))"
  have john: "profile_username service manager = (Inr ''john'', resolved) \<and> ''john'' \<noteq> []"
    using service_resolves by simp
  have down: "profile_username (failing_at 2) manager
                = (Inl EndpointConnectionError, snd (profile_username (failing_at 2) manager))"
    by (simp add: profile_username_def send_def failing_at_def manager_def)
  have none: "profile_username ?w manager = (Inr [], snd (profile_username ?w manager))"
    by (simp add: profile_username_def send_def answering_def service_def blank_def
          manager_def index_def match_user_def match_profile_def isalpha_ascii_def isdigit_def)
  have st: "site (snd (profile_username (failing_at 2) manager)) = ''https://runkeeper.com''"
      "site (snd (profile_username ?w manager)) = ''https://runkeeper.com''"
    by (simp_all add: profile_username_site manager_def)
  note hit = profile_username_cached_reads [of service manager, THEN conjunct1, rule_format,
      OF john, of "failing_at 3" 5]
  note miss = profile_username_cached_reads [of "failing_at 2" manager, THEN conjunct2,
      THEN conjunct1, rule_format, OF down, THEN conjunct2, rule_format, of service]
  note blank = profile_username_cached_reads [of ?w manager, THEN conjunct2,
      THEN conjunct2, rule_format, OF none, THEN conjunct2, rule_format, of service]
  have 1: "fst (profile_username (failing_at 2) manager) = Inl EndpointConnectionError"
    using down by (metis fst_conv)
  have 2: "fst (profile_username ?w manager) = Inr []"
    using none by (metis fst_conv)
  show ?thesis
    using hit miss blank 1 2 unfolding st
    by (intro conjI) blast+
qed

text \<open>
  C10. With the profile identifier not yet resolved, \<open>get_activities_month\<close> reads
  \<open>profile_username\<close> before it sends the listing request:
  \<^item> when that read raises, the same exception leaves \<open>get_activities_month\<close>, the
    manager is as the failed read left it, and the only request made is the one for
    the home page, so no listing request was sent;
  \<^item> the exceptions of the read are EndpointConnectionError (the home page could not be
    fetched), ProfileNotFound and the AttributeError of a page with no matching link;
  \<^item> when the read returns, the home page request comes first and the listing request
    second, carrying the identifier just resolved;
  \<^item> whenever NoActivitiesFound or NoActivityInMonth is raised, the read had returned
    and the listing request had been sent.
\<close>

theorem listing_resolves_profile_first:
  assumes "Runkeeper__profile_username rk = []"
  shows "(\<forall>e rk1. profile_username w rk = (Inl e, rk1) \<longrightarrow>
            get_activities_month w month year rk = (Inl e, rk1)
            \<and> requests rk1 = requests rk @ [home_request (site rk)]
            \<and> e \<in> {EndpointConnectionError, ProfileNotFound, AttributeError})
       \<and> (\<forall>u rk1. profile_username w rk = (Inr u, rk1) \<longrightarrow>
            requests (snd (get_activities_month w month year rk)) =
              requests rk @ [home_request (site rk),
                             listing_request (site rk) u (month @ ''-01-'' @ year_or_today w year)])
       \<and> (fst (get_activities_month w month year rk) \<in> {Inl NoActivitiesFound, Inl NoActivityInMonth}
            \<longrightarrow> (\<exists>u rk1. profile_username w rk = (Inr u, rk1)
                  \<and> requests (snd (get_activities_month w month year rk)) =
                      requests rk @ [home_request (site rk),
                                     listing_request (site rk) u
                                       (month @ ''-01-'' @ year_or_today w year)]))"
proof -
  have fail: "get_activities_month w month year rk = (Inl e, rk1)
              \<and> requests rk1 = requests rk @ [home_request (site rk)]
              \<and> e \<in> {EndpointConnectionError, ProfileNotFound, AttributeError}"
    if "profile_username w rk = (Inl e, rk1)" for e rk1
  proof -
    have "requests rk1 = requests rk @ [home_request (site rk)]"
      using profile_username_requests [of w rk] that assms by simp
    moreover have "e \<in> {EndpointConnectionError, ProfileNotFound, AttributeError}"
      using profile_username_errors [OF that] by auto
    ultimately show ?thesis
      using that by (simp add: get_activities_month_def)
  qed
  have ok: "requests (snd (get_activities_month w month year rk)) =
              requests rk @ [home_request (site rk),
                             listing_request (site rk) u (month @ ''-01-'' @ year_or_today w year)]"
    if "profile_username w rk = (Inr u, rk1)" for u rk1
  proof -
    have r1: "requests rk1 = requests rk @ [home_request (site rk)]"
      using profile_username_requests [of w rk] that assms by simp
    have s1: "site rk1 = site rk"
      using profile_username_site [of w rk] that by simp
    show ?thesis
      using that r1 s1
      by (simp add: get_activities_month_def requests_def listing_request_def send_def
            split: option.splits sum.splits)
  qed
  have listing: "\<exists>u rk1. profile_username w rk = (Inr u, rk1)"
    if "fst (get_activities_month w month year rk) \<in> {Inl NoActivitiesFound, Inl NoActivityInMonth}"
  proof (cases "profile_username w rk")
    case (Pair r rk1)
    show ?thesis
    proof (cases r)
      case (Inl e)
      with Pair fail [of e rk1] that show ?thesis by auto
    next
      case (Inr u)
      with Pair show ?thesis by simp
    qed
  qed
  show ?thesis
    using fail ok listing by blast
qed

theorem listing_resolves_profile_first_witness:
  "get_activities_month (failing_at 2) ''Jan'' (Some ''2024'') manager
     = (Inl EndpointConnectionError, snd (profile_username (failing_at 2) manager))
   \<and> requests (snd (profile_username (failing_at 2) manager))
     = requests manager @ [home_request ''https://runkeeper.com'']
   \<and> requests (snd (get_activities_month service ''Jan'' (Some ''2024'') manager))
     = requests manager @ [home_request ''https://runkeeper.com'',
                           listing_request ''https://runkeeper.com'' ''john'' ''Jan-01-2024'']"
proof -
  have fresh: "Runkeeper__profile_username manager = []"
    by (simp add: manager_def)
  have down: "profile_username (failing_at 2) manager
                = (Inl EndpointConnectionError, snd (profile_username (failing_at 2) manager))"
    by (simp add: profile_username_def send_def failing_at_def manager_def)
  have st: "site manager = ''https://runkeeper.com''"
    by (simp add: manager_def)
  show ?thesis
    using listing_resolves_profile_first [OF fresh, of "failing_at 2" "''Jan''" "Some ''2024''"]
      listing_resolves_profile_first [OF fresh, of service "''Jan''" "Some ''2024''"]
      down service_resolves
    by (simp add: st year_or_today_def)
qed


section \<open>The monthly listing\<close>

lemma map_result_Activity_error: "map_result Activity es = Inl e \<Longrightarrow> e = AttributeError"
  by (induction es) (auto simp add: Activity_def split: json.splits sum.splits)

lemma activities_of_error: "activities_of v y m = Inl e \<Longrightarrow> e \<in> {KeyError, TypeError}"
  by (auto simp add: activities_of_def py_getitem_def py_iter_def
           split: json.splits sum.splits option.splits)

lemma map_result_Activity_objects:
  "\<forall>x \<in> set es. \<exists>kvs. x = JObj kvs \<Longrightarrow>
   \<exists>as. map_result Activity es = Inr as \<and> length as = length es
        \<and> (\<forall>i < length es. Activity (es ! i) = Inr (as ! i))"
proof (induction es)
  case Nil
  then show ?case by simp
next
  case (Cons x es)
  then obtain as where as: "map_result Activity es = Inr as" "length as = length es"
      "\<forall>i < length es. Activity (es ! i) = Inr (as ! i)"
    by auto
  from Cons.prems obtain kvs where x: "x = JObj kvs"
    by auto
  then obtain a where a: "Activity x = Inr a"
    by (simp add: Activity_def)
  have "\<forall>i < length (x # es). Activity ((x # es) ! i) = Inr ((a # as) ! i)"
    using a as(3) by (auto simp add: nth_Cons split: nat.splits)
  then show ?case
    using a as(1,2) by simp
qed

text \<open>What \<open>get_activities_month\<close> returns once the profile is known, the listing request
  was answered and the answer is JSON with the key \<^verbatim>\<open>activities\<close>.\<close>

lemma get_activities_month_parsed:
  assumes "profile_username w rk = (Inr u, rk1)"
    and "respond w (length (requests rk1))
           (listing_request (site rk) u (month @ ''-01-'' @ year_or_today w year)) = Some r"
    and "loads r = Some j"
    and "py_getitem j ''activities'' = Inr v"
  shows "fst (get_activities_month w month year rk) =
           (if \<not> truthy v then Inl NoActivityInMonth
            else (case activities_of v (year_or_today w year) month of
                    Inl e \<Rightarrow> Inl e
                  | Inr es \<Rightarrow> map_result Activity es))"
proof -
  have s1: "site rk1 = site rk"
    using profile_username_site [of w rk] assms(1) by simp
  show ?thesis
    using assms s1
    by (simp add: get_activities_month_def send_def requests_def listing_request_def
          split: sum.splits)
qed

lemma service_listing:
  "respond service (length (requests resolved))
     (listing_request (site manager) ''john'' (''Jan'' @ ''-01-'' @ year_or_today service (Some ''2024'')))
   = Some (blank\<lparr>loads := Some january\<rparr>)"
  by (simp add: service_def serve_def listing_request_def)

text \<open>
  C4 as stated: for a listing with the key \<^verbatim>\<open>activities\<close> and no activity for the year
  and month asked, NoActivityInMonth is raised and never an empty sequence returned.
  The source tests only the whole value under \<^verbatim>\<open>activities\<close>: a listing that has the
  year and the month with an empty list gives the empty sequence.
\<close>

theorem empty_month_returns_empty_sequence:
  "fst (get_activities_month
          (answering ActivitiesByDateRange GET
             (Some (blank\<lparr>loads := Some (JObj [(''activities'',
                JObj [(''2024'', JObj [(''Jan'', JArr [])])])])\<rparr>)))
          ''Jan'' (Some ''2024'') manager)
   = Inr []"
  by (simp add: get_activities_month_def profile_username_def send_def answering_def
        service_def serve_def home_page_def blank_def manager_def index_def match_user_def
        match_profile_def isalpha_ascii_def isdigit_def year_or_today_def py_getitem_def
        activities_of_def py_iter_def)

text \<open>
  C4, amended. When the profile is known, the listing request is answered and the
  answer is JSON with the key \<^verbatim>\<open>activities\<close>, \<open>get_activities_month\<close> raises
  NoActivityInMonth exactly when the value under that key is empty (false as a truth
  value), for every month and year: the test comes before the value is indexed with
  the year and the month, so neither key needs to be there.
\<close>

theorem empty_listing_raises:
  assumes "profile_username w rk = (Inr u, rk1)"
    and "respond w (length (requests rk1))
           (listing_request (site rk) u (month @ ''-01-'' @ year_or_today w year)) = Some r"
    and "loads r = Some j"
    and "py_getitem j ''activities'' = Inr v"
  shows "(fst (get_activities_month w month year rk) = Inl NoActivityInMonth) = (\<not> truthy v)"
proof (cases "truthy v")
  case False
  then show ?thesis
    using get_activities_month_parsed [OF assms] by simp
next
  case True
  have "fst (get_activities_month w month year rk) \<noteq> Inl NoActivityInMonth"
  proof (cases "activities_of v (year_or_today w year) month")
    case (Inl e)
    then show ?thesis
      using get_activities_month_parsed [OF assms] True activities_of_error [OF Inl] by auto
  next
    case (Inr es)
    show ?thesis
    proof (cases "map_result Activity es")
      case (Inl e)
      then show ?thesis
        using get_activities_month_parsed [OF assms] True Inr map_result_Activity_error [OF Inl]
        by simp
    next
      case (Inr as)
      then show ?thesis
        using get_activities_month_parsed [OF assms] True \<open>activities_of v _ month = Inr es\<close>
        by simp
    qed
  qed
  with True show ?thesis by simp
qed

theorem empty_listing_raises_witness:
  "fst (get_activities_month
          (answering ActivitiesByDateRange GET
             (Some (blank\<lparr>loads := Some (JObj [(''activities'', JObj [])])\<rparr>)))
          ''Feb'' (Some ''2023'') manager)
   = Inl NoActivityInMonth"
proof -
  let ?w = "answering ActivitiesByDateRange GET
              (Some (blank\<lparr>loads := Some (JObj [(''activities'', JObj [])])\<rparr>))"
  have p: "profile_username ?w manager = (Inr ''john'', resolved)"
    by (simp add: profile_username_def send_def answering_def service_def serve_def
          home_page_def blank_def manager_def resolved_def requests_def home_request_def
          login_page_request_def login_post_request_def index_def match_user_def
          match_profile_def isalpha_ascii_def isdigit_def)
  have l: "respond ?w (length (requests resolved))
             (listing_request (site manager) ''john'' (''Feb'' @ ''-01-'' @ year_or_today ?w (Some ''2023'')))
           = Some (blank\<lparr>loads := Some (JObj [(''activities'', JObj [])])\<rparr>)"
    by (simp add: answering_def service_def listing_request_def)
  have j: "loads (blank\<lparr>loads := Some (JObj [(''activities'', JObj [])])\<rparr>)
           = Some (JObj [(''activities'', JObj [])])"
    by simp
  have v: "py_getitem (JObj [(''activities'', JObj [])]) ''activities'' = Inr (JObj [])"
    by (simp add: py_getitem_def)
  show ?thesis
    using empty_listing_raises [OF p l j v] by simp
qed

text \<open>
  C8. When the profile is known, the listing request is answered and the answer is
  JSON in which \<^verbatim>\<open>activities[year][month]\<close> is a list of \<open>N\<close> objects,
  \<open>get_activities_month\<close> returns \<open>N\<close> records, the \<open>i\<close>-th built from the \<open>i\<close>-th entry:
  its eight summary fields are what the entry holds under \<^verbatim>\<open>username\<close>, \<^verbatim>\<open>distance\<close>,
  \<^verbatim>\<open>distanceUnits\<close>, \<^verbatim>\<open>activity_id\<close>, \<^verbatim>\<open>elapsedTime\<close>, \<^verbatim>\<open>live\<close>, \<^verbatim>\<open>mainText\<close> and
  \<^verbatim>\<open>type\<close> (\<^verbatim>\<open>None\<close> for a key it lacks), and its five caches are unset.
\<close>

theorem listing_records_in_order:
  assumes "profile_username w rk = (Inr u, rk1)"
    and "respond w (length (requests rk1))
           (listing_request (site rk) u (month @ ''-01-'' @ year_or_today w year)) = Some r"
    and "loads r = Some j"
    and "py_getitem j ''activities'' = Inr v"
    and "py_getitem v (year_or_today w year) = Inr by_month"
    and "py_getitem by_month month = Inr (JArr entries)"
    and "\<forall>x \<in> set entries. \<exists>kvs. x = JObj kvs"
  shows "\<exists>as. fst (get_activities_month w month year rk) = Inr as
           \<and> length as = length entries
           \<and> (\<forall>i < length entries. \<forall>kvs. entries ! i = JObj kvs \<longrightarrow>
                username (as ! i) = dict_get kvs ''username''
                \<and> distance (as ! i) = dict_get kvs ''distance''
                \<and> distance_units (as ! i) = dict_get kvs ''distanceUnits''
                \<and> activity_id (as ! i) = dict_get kvs ''activity_id''
                \<and> elapsed_time (as ! i) = dict_get kvs ''elapsedTime''
                \<and> live (as ! i) = dict_get kvs ''live''
                \<and> caption (as ! i) = dict_get kvs ''mainText''
                \<and> activity_type (as ! i) = dict_get kvs ''type''
                \<and> unpopulated (as ! i))"
proof -
  have tv: "truthy v"
    using assms(5) by (auto simp add: py_getitem_def split: json.splits option.splits)
  have es: "activities_of v (year_or_today w year) month = Inr entries"
    using assms(5,6) by (simp add: activities_of_def py_iter_def)
  obtain as where as: "map_result Activity entries = Inr as" "length as = length entries"
      "\<forall>i < length entries. Activity (entries ! i) = Inr (as ! i)"
    using map_result_Activity_objects [OF assms(7)] by auto
  have res: "fst (get_activities_month w month year rk) = Inr as"
    using get_activities_month_parsed [OF assms(1-4)] tv es as(1) by simp
  have fields: "username (as ! i) = dict_get kvs ''username''
                \<and> distance (as ! i) = dict_get kvs ''distance''
                \<and> distance_units (as ! i) = dict_get kvs ''distanceUnits''
                \<and> activity_id (as ! i) = dict_get kvs ''activity_id''
                \<and> elapsed_time (as ! i) = dict_get kvs ''elapsedTime''
                \<and> live (as ! i) = dict_get kvs ''live''
                \<and> caption (as ! i) = dict_get kvs ''mainText''
                \<and> activity_type (as ! i) = dict_get kvs ''type''
                \<and> unpopulated (as ! i)"
    if "i < length entries" "entries ! i = JObj kvs" for i kvs
  proof -
    have "Activity (JObj kvs) = Inr (as ! i)"
      using as(3) that by auto
    then have "as ! i =
        \<lparr>username = dict_get kvs ''username'', distance = dict_get kvs ''distance'',
         activity_id = dict_get kvs ''activity_id'',
         distance_units = dict_get kvs ''distanceUnits'',
         elapsed_time = dict_get kvs ''elapsedTime'', live = dict_get kvs ''live'',
         caption = dict_get kvs ''mainText'', activity_type = dict_get kvs ''type'',
         Activity__statsCalories = JNull, Activity__statsElevation = JNull,
         Activity__statsPace = JNull, Activity__statsSpeed = JNull,
         Activity__datetime = None\<rparr>"
      by (simp add: Activity_def)
    then show ?thesis
      by (simp add: unpopulated_def)
  qed
  show ?thesis
    using res as(2) fields by blast
qed

theorem listing_records_in_order_witness:
  "fst (get_activities_month service ''Jan'' (Some ''2024'') manager) = Inr [record1, record2]"
proof -
  have j: "loads (blank\<lparr>loads := Some january\<rparr>) = Some january"
    by simp
  have v: "py_getitem january ''activities''
             = Inr (JObj [(''2024'', JObj [(''Jan'', JArr [run1, run2])])])"
    by (simp add: py_getitem_def january_def)
  have y: "py_getitem (JObj [(''2024'', JObj [(''Jan'', JArr [run1, run2])])])
             (year_or_today service (Some ''2024''))
           = Inr (JObj [(''Jan'', JArr [run1, run2])])"
    by (simp add: py_getitem_def year_or_today_def)
  have m: "py_getitem (JObj [(''Jan'', JArr [run1, run2])]) ''Jan'' = Inr (JArr [run1, run2])"
    by (simp add: py_getitem_def)
  have objs: "\<forall>x \<in> set [run1, run2]. \<exists>kvs. x = JObj kvs"
    by (simp add: run1_def run2_def)
  obtain as where as: "fst (get_activities_month service ''Jan'' (Some ''2024'') manager) = Inr as"
      "length as = length [run1, run2]"
      "\<forall>i < length [run1, run2]. \<forall>kvs. [run1, run2] ! i = JObj kvs \<longrightarrow>
                username (as ! i) = dict_get kvs ''username''
                \<and> distance (as ! i) = dict_get kvs ''distance''
                \<and> distance_units (as ! i) = dict_get kvs ''distanceUnits''
                \<and> activity_id (as ! i) = dict_get kvs ''activity_id''
                \<and> elapsed_time (as ! i) = dict_get kvs ''elapsedTime''
                \<and> live (as ! i) = dict_get kvs ''live''
                \<and> caption (as ! i) = dict_get kvs ''mainText''
                \<and> activity_type (as ! i) = dict_get kvs ''type''
                \<and> unpopulated (as ! i)"
    using listing_records_in_order [OF service_resolves service_listing j v y m objs] by blast
  obtain a b where ab: "as = [a, b]"
    using as(2) by (cases as; cases "tl as"; cases "tl (tl as)") auto
  have "a = record1"
    using as(3) [rule_format, of 0] ab
    by (simp add: run1_def record1_def dict_get_def unpopulated_def)
  moreover have "b = record2"
    using as(3) [rule_format, of 1] ab
    by (simp add: run2_def record2_def dict_get_def unpopulated_def)
  ultimately show ?thesis
    using as(1) ab by simp
qed


section \<open>The timestamp of an activity\<close>

lemma subtitle_text:
  "hd (split CHR ''-'' ''Mon Jan 05 14:30:00 UTC 2024 - 3.1 mi'') = ''Mon Jan 05 14:30:00 UTC 2024 ''"
  "rstrip ''Mon Jan 05 14:30:00 UTC 2024 '' = ''Mon Jan 05 14:30:00 UTC 2024''"
  by code_simp+

lemma subtitle_fields:
  "date_fields ''Mon Jan 05 14:30:00 UTC 2024''
     = [''Mon'', ''Jan'', ''05'', ''14:30:00'', ''UTC'', ''2024'']"
  by code_simp

lemma subtitle_clock:
  "split CHR '':'' ''14:30:00'' = [''14'', ''30'', ''00'']"
  "bounded 61 ''14'' = Some 14"
  "bounded 61 ''30'' = Some 30"
  "bounded 61 ''00'' = Some 0"
  by code_simp+

lemma subtitle_date:
  "position months (lower ''Jan'') = Some 0"
  "bounded 31 ''05'' = Some 5"
  "number ''2024'' = Some 2024"
  "lower ''Mon'' \<in> set weekdays"
  "lower ''UTC'' = ''utc''"
  "days_in_month 2024 (Suc 0) = 31"
  by code_simp+

lemma strptime_subtitle:
  "strptime tz ''Mon Jan 05 14:30:00 UTC 2024'' = Inr (Datetime 2024 1 5 14 30 0)"
  unfolding strptime_def subtitle_fields
  by (simp only: subtitle_clock subtitle_date list.case prod.case option.case list.map)
     simp

lemma get_activity_details_requests:
  "requests (snd (get_activity_details w aid rk)) = requests rk @ [detail_request (site rk) aid]"
  by (simp add: get_activity_details_def send_def requests_def detail_request_def
        split: option.splits)

lemma get_activity_details_keeps:
  "site (snd (get_activity_details w aid rk)) = site rk
   \<and> Runkeeper__profile_username (snd (get_activity_details w aid rk))
       = Runkeeper__profile_username rk"
  by (simp add: get_activity_details_def send_def split: option.splits)

lemma get_activity_datetime_requests:
  "get_activity_datetime w aid rk = (Inr d, rk2) \<Longrightarrow>
   \<exists>u. requests rk2 =
         requests rk @ (if Runkeeper__profile_username rk = [] then [home_request (site rk)] else [])
           @ [page_request (site rk) u aid]"
proof -
  assume a: "get_activity_datetime w aid rk = (Inr d, rk2)"
  obtain r rk1 where p: "profile_username w rk = (r, rk1)"
    by (cases "profile_username w rk")
  have r1: "requests rk1 =
      requests rk @ (if Runkeeper__profile_username rk = [] then [home_request (site rk)] else [])"
    using profile_username_requests [of w rk] p by simp
  have s1: "site rk1 = site rk"
    using profile_username_site [of w rk] p by simp
  show ?thesis
    using a p r1 s1
    by (auto simp add: get_activity_datetime_def send_def requests_def page_request_def
          split: sum.splits option.splits prod.splits)
qed

lemma get_activity_datetime_subtitle:
  assumes "profile_username w rk = (Inr u, rk1)"
    and "respond w (length (requests rk1)) (page_request (site rk) u aid) = Some r"
    and "subtitle r = Some [NavigableString ''Mon Jan 05 14:30:00 UTC 2024 - 3.1 mi'']"
  shows "get_activity_datetime w aid rk =
           (Inr (Datetime 2024 1 5 14 30 0),
            rk1\<lparr>session := \<lparr>jar = cookies r @ jar (session rk1),
                             sent = requests rk1 @ [page_request (site rk) u aid]\<rparr>\<rparr>)"
proof -
  have s1: "site rk1 = site rk"
    using profile_username_site [of w rk] assms(1) by simp
  have param: "date_param (NavigableString ''Mon Jan 05 14:30:00 UTC 2024 - 3.1 mi'')
                = Inr ''Mon Jan 05 14:30:00 UTC 2024''"
    unfolding date_param_def child.case subtitle_text ..
  show ?thesis
    using assms s1
    by (simp add: get_activity_datetime_def send_def requests_def page_request_def
          param strptime_subtitle)
qed

text \<open>
  C9. When the element with the subtitle of the activity page has the one text
  \<^verbatim>\<open>Mon Jan 05 14:30:00 UTC 2024 - 3.1 mi\<close>, \<open>get_activity_datetime\<close> cuts it at the first
  \<^verbatim>\<open>-\<close>, strips the blank before it and parses the rest with the fixed format, whatever
  the host's time zone, to 2024-01-05 14:30:00; and the property \<open>datetime\<close> of a record
  whose timestamp is not cached yet, after a detail fetch that returned a JSON object,
  returns that timestamp. The hypotheses say that the requests are answered: the
  detail request with an object, the profile resolved, the page with that subtitle.
\<close>

theorem subtitle_parses_to_timestamp:
  assumes "Activity__datetime a = None"
    and "get_activity_details w (activity_id a) rk0 = (Inr (JObj kvs), rk)"
    and "profile_username w rk = (Inr u, rk1)"
    and "respond w (length (requests rk1)) (page_request (site rk) u (activity_id a)) = Some r"
    and "subtitle r = Some [NavigableString ''Mon Jan 05 14:30:00 UTC 2024 - 3.1 mi'']"
  shows "fst (get_activity_datetime w (activity_id a) rk) = Inr (Datetime 2024 1 5 14 30 0)
       \<and> fst (datetime w (a, rk0)) = Inr (Some (Datetime 2024 1 5 14 30 0))
       \<and> Activity__datetime (fst (snd (datetime w (a, rk0)))) = Some (Datetime 2024 1 5 14 30 0)"
proof -
  have dt: "get_activity_datetime w (activity_id a) rk =
              (Inr (Datetime 2024 1 5 14 30 0),
               rk1\<lparr>session := \<lparr>jar = cookies r @ jar (session rk1),
                   sent = requests rk1 @ [page_request (site rk) u (activity_id a)]\<rparr>\<rparr>)"
    using get_activity_datetime_subtitle [OF assms(3,4,5)] .
  have "populate w (a, rk0) =
          (Inr (),
           a\<lparr>Activity__datetime := Some (Datetime 2024 1 5 14 30 0),
             Activity__statsCalories := dict_get kvs ''statsCalories'',
             Activity__statsElevation := dict_get kvs ''statsElevation'',
             Activity__statsPace := dict_get kvs ''statsPace'',
             Activity__statsSpeed := dict_get kvs ''statsSpeed''\<rparr>,
           rk1\<lparr>session := \<lparr>jar = cookies r @ jar (session rk1),
               sent = requests rk1 @ [page_request (site rk) u (activity_id a)]\<rparr>\<rparr>)"
    using assms(2) dt by (simp add: populate_def)
  then show ?thesis
    using assms(1) dt by (simp add: datetime_def)
qed

lemma service_details:
  "get_activity_details service (JInt 101) resolved =
     (Inr stats, resolved\<lparr>session := \<lparr>jar = [(''checker'', ''1'')],
        sent = requests resolved @ [detail_request ''https://runkeeper.com'' (JInt 101)]\<rparr>\<rparr>)"
  by (simp add: get_activity_details_def send_def service_def serve_def blank_def
        resolved_def manager_def requests_def detail_request_def)

theorem subtitle_parses_to_timestamp_witness:
  "fst (datetime service (record1, resolved)) = Inr (Some (Datetime 2024 1 5 14 30 0))
   \<and> Activity__datetime (fst (snd (datetime service (record1, resolved))))
       = Some (Datetime 2024 1 5 14 30 0)"
proof -
  let ?rk = "resolved\<lparr>session := \<lparr>jar = [(''checker'', ''1'')],
        sent = requests resolved @ [detail_request ''https://runkeeper.com'' (JInt 101)]\<rparr>\<rparr>"
  have a: "Activity__datetime record1 = None"
    by (simp add: record1_def)
  have d: "get_activity_details service (activity_id record1) resolved
             = (Inr (JObj [(''statsCalories'', JInt 120), (''statsElevation'', JInt 5),
                           (''statsPace'', JStr ''5:30''), (''statsSpeed'', JFloat 10.9)]), ?rk)"
    using service_details by (simp add: record1_def stats_def)
  have p: "profile_username service ?rk = (Inr ''john'', ?rk)"
    by (simp add: profile_username_def resolved_def)
  have g: "respond service (length (requests ?rk))
             (page_request (site ?rk) ''john'' (activity_id record1)) = Some activity_page"
    by (simp add: service_def serve_def page_request_def)
  have s: "subtitle activity_page
             = Some [NavigableString ''Mon Jan 05 14:30:00 UTC 2024 - 3.1 mi'']"
    by (simp add: activity_page_def blank_def)
  show ?thesis
    using subtitle_parses_to_timestamp [OF a d p g s] by simp
qed


section \<open>Lazy population\<close>

lemma access_cached:
  "cached_true p a \<Longrightarrow> access w p (a, rk) = (Inr (cached p a), a, rk)"
  by (cases p)
     (auto simp add: access_def cached_true_def cached_def tag_result_def calories_def
        elevation_def pace_def speed_def datetime_def split: option.splits)

lemma access_populates:
  "\<not> cached_true p a \<Longrightarrow> access w p (a, rk) = populate_then w p (a, rk)"
  by (cases p)
     (auto simp add: access_def cached_true_def cached_def tag_result_def calories_def
        elevation_def pace_def speed_def datetime_def populate_then_def
        split: option.splits prod.splits sum.splits)

lemma unpopulated_cached: "unpopulated a \<Longrightarrow> \<not> cached_true p a"
  by (cases p) (simp_all add: unpopulated_def cached_true_def cached_def)

lemma populate_fetch_error:
  "fetch_error w a rk = Some e \<Longrightarrow>
   fst (populate w (a, rk)) = Inl e \<and> fst (snd (populate w (a, rk))) = a"
  by (auto simp add: fetch_error_def populate_def split: prod.splits sum.splits)

lemma populate_success:
  assumes "populate w (a, rk) = (Inr u, a1, rk1)"
  shows "\<exists>kvs rk0 d.
           get_activity_details w (activity_id a) rk = (Inr (JObj kvs), rk0)
           \<and> get_activity_datetime w (activity_id a) rk0 = (Inr d, rk1)
           \<and> a1 = a\<lparr>Activity__datetime := Some d,
                      Activity__statsCalories := dict_get kvs ''statsCalories'',
                      Activity__statsElevation := dict_get kvs ''statsElevation'',
                      Activity__statsPace := dict_get kvs ''statsPace'',
                      Activity__statsSpeed := dict_get kvs ''statsSpeed''\<rparr>"
  using assms
  by (auto simp add: populate_def split: prod.splits sum.splits json.splits)

lemma populate_fetched:
  assumes "get_activity_details w (activity_id a) rk = (Inr (JObj kvs), rk0)"
    and "get_activity_datetime w (activity_id a) rk0 = (Inr d, rk1)"
  shows "populate w (a, rk) =
           (Inr (),
            a\<lparr>Activity__datetime := Some d,
              Activity__statsCalories := dict_get kvs ''statsCalories'',
              Activity__statsElevation := dict_get kvs ''statsElevation'',
              Activity__statsPace := dict_get kvs ''statsPace'',
              Activity__statsSpeed := dict_get kvs ''statsSpeed''\<rparr>,
            rk1)"
  using assms by (simp add: populate_def)

lemma populate_requests:
  assumes "populate w (a, rk) = (Inr u, a1, rk1)"
  shows "\<exists>profile. requests rk1 =
           requests rk @ [detail_request (site rk) (activity_id a)]
             @ (if Runkeeper__profile_username rk = [] then [home_request (site rk)] else [])
             @ [page_request (site rk) profile (activity_id a)]"
proof -
  obtain r0 rk0 where d: "get_activity_details w (activity_id a) rk = (r0, rk0)"
    by (cases "get_activity_details w (activity_id a) rk")
  obtain j where j: "r0 = Inr j"
    using assms d by (cases r0) (auto simp add: populate_def)
  obtain r2 rk2 where t: "get_activity_datetime w (activity_id a) rk0 = (r2, rk2)"
    by (cases "get_activity_datetime w (activity_id a) rk0")
  obtain dt where dt: "r2 = Inr dt"
    using assms d j t by (cases r2) (auto simp add: populate_def)
  have rk1: "rk1 = rk2"
    using assms d j t dt by (auto simp add: populate_def split: json.splits)
  have r0: "requests rk0 = requests rk @ [detail_request (site rk) (activity_id a)]"
    using get_activity_details_requests [of w "activity_id a" rk] d by simp
  have k0: "site rk0 = site rk" "Runkeeper__profile_username rk0 = Runkeeper__profile_username rk"
    using get_activity_details_keeps [of w "activity_id a" rk] d by simp_all
  show ?thesis
    using get_activity_datetime_requests [of w "activity_id a" rk0 dt rk2] t dt r0 k0 rk1
    by auto
qed

text \<open>
  C2 as stated: whenever \<^verbatim>\<open>_populate\<close> fails, the five cache fields are as they were.
  When the detail endpoint answers with JSON that is not an object (here the empty
  list), both fetches succeed, the timestamp is stored, and then the first
  \<^verbatim>\<open>activity_details.get\<close> raises AttributeError: the call fails with one of the five
  fields changed.
\<close>

theorem partial_population:
  "fst (populate details_a_list (record1, resolved)) = Inl AttributeError
   \<and> Activity__datetime record1 = None
   \<and> Activity__datetime (fst (snd (populate details_a_list (record1, resolved))))
       = Some (Datetime 2024 1 5 14 30 0)"
proof -
  let ?rk = "resolved\<lparr>session := \<lparr>jar = [(''checker'', ''1'')],
        sent = requests resolved @ [detail_request ''https://runkeeper.com'' (JInt 101)]\<rparr>\<rparr>"
  have d: "get_activity_details details_a_list (activity_id record1) resolved = (Inr (JArr []), ?rk)"
    by (simp add: get_activity_details_def send_def details_a_list_def answering_def
          service_def blank_def resolved_def manager_def requests_def detail_request_def
          record1_def)
  have p: "profile_username details_a_list ?rk = (Inr ''john'', ?rk)"
    by (simp add: profile_username_def resolved_def)
  have g: "respond details_a_list (length (requests ?rk))
             (page_request (site ?rk) ''john'' (activity_id record1)) = Some activity_page"
    by (simp add: details_a_list_def answering_def service_def serve_def page_request_def)
  have s: "subtitle activity_page
             = Some [NavigableString ''Mon Jan 05 14:30:00 UTC 2024 - 3.1 mi'']"
    by (simp add: activity_page_def blank_def)
  show ?thesis
    using d get_activity_datetime_subtitle [OF p g s]
    by (simp add: populate_def) (simp add: record1_def)
qed

text \<open>
  C2, amended. Population is all-or-nothing with respect to the two fetches:
  \<^item> when \<open>get_activity_details\<close> or \<open>get_activity_datetime\<close> raises, the same exception
    leaves \<^verbatim>\<open>_populate\<close> and the record is exactly as it was before the call; if it
    was unpopulated, every later access of any of the five properties runs the
    population again;
  \<^item> a transport failure of the detail request is EndpointConnectionError, a detail
    answer that is not JSON is InvalidActivityId, a transport failure of the page
    request is EndpointConnectionError;
  \<^item> when the detail fetch returns a JSON object and the page fetch a timestamp, the
    call succeeds and stores exactly that timestamp and the values the object holds
    under \<^verbatim>\<open>statsCalories\<close>, \<^verbatim>\<open>statsElevation\<close>, \<^verbatim>\<open>statsPace\<close> and \<^verbatim>\<open>statsSpeed\<close>
    (\<^verbatim>\<open>None\<close> for a key it lacks), all five in the one call; and a call that
    succeeds is always of this kind.
  The failure after both fetches, on details that are not an object, is left out.
\<close>

theorem populate_all_or_nothing:
  "(\<forall>e. fetch_error w a rk = Some e \<longrightarrow>
      fst (populate w (a, rk)) = Inl e
      \<and> fst (snd (populate w (a, rk))) = a
      \<and> (unpopulated a \<longrightarrow>
           (\<forall>w' p rk'. access w' p (fst (snd (populate w (a, rk))), rk')
                         = populate_then w' p (fst (snd (populate w (a, rk))), rk'))))
   \<and> (respond w (length (requests rk)) (detail_request (site rk) (activity_id a)) = None
        \<longrightarrow> fetch_error w a rk = Some EndpointConnectionError)
   \<and> (\<forall>r. respond w (length (requests rk)) (detail_request (site rk) (activity_id a)) = Some r
            \<and> loads r = None
        \<longrightarrow> fetch_error w a rk = Some InvalidActivityId)
   \<and> (\<forall>j rk0 u rk1. get_activity_details w (activity_id a) rk = (Inr j, rk0)
            \<and> profile_username w rk0 = (Inr u, rk1)
            \<and> respond w (length (requests rk1)) (page_request (site rk) u (activity_id a)) = None
        \<longrightarrow> fetch_error w a rk = Some EndpointConnectionError)
   \<and> (\<forall>kvs rk0 d rk1. get_activity_details w (activity_id a) rk = (Inr (JObj kvs), rk0)
            \<and> get_activity_datetime w (activity_id a) rk0 = (Inr d, rk1)
        \<longrightarrow> populate w (a, rk) =
              (Inr (),
               a\<lparr>Activity__datetime := Some d,
                 Activity__statsCalories := dict_get kvs ''statsCalories'',
                 Activity__statsElevation := dict_get kvs ''statsElevation'',
                 Activity__statsPace := dict_get kvs ''statsPace'',
                 Activity__statsSpeed := dict_get kvs ''statsSpeed''\<rparr>,
               rk1))
   \<and> (fst (populate w (a, rk)) = Inr () \<longrightarrow>
        (\<exists>kvs rk0 d rk1. get_activity_details w (activity_id a) rk = (Inr (JObj kvs), rk0)
            \<and> get_activity_datetime w (activity_id a) rk0 = (Inr d, rk1)
            \<and> populate w (a, rk) =
                  (Inr (),
                   a\<lparr>Activity__datetime := Some d,
                     Activity__statsCalories := dict_get kvs ''statsCalories'',
                     Activity__statsElevation := dict_get kvs ''statsElevation'',
                     Activity__statsPace := dict_get kvs ''statsPace'',
                     Activity__statsSpeed := dict_get kvs ''statsSpeed''\<rparr>,
                   rk1)))"
proof -
  have failed: "fst (populate w (a, rk)) = Inl e
      \<and> fst (snd (populate w (a, rk))) = a
      \<and> (unpopulated a \<longrightarrow>
           (\<forall>w' p rk'. access w' p (fst (snd (populate w (a, rk))), rk')
                         = populate_then w' p (fst (snd (populate w (a, rk))), rk')))"
    if "fetch_error w a rk = Some e" for e
    using populate_fetch_error [OF that]
    by (simp add: access_populates unpopulated_cached)
  have transport: "fetch_error w a rk = Some EndpointConnectionError"
    if "respond w (length (requests rk)) (detail_request (site rk) (activity_id a)) = None"
    using that
    by (simp add: fetch_error_def get_activity_details_def send_def requests_def
          detail_request_def)
  have malformed: "fetch_error w a rk = Some InvalidActivityId"
    if "respond w (length (requests rk)) (detail_request (site rk) (activity_id a)) = Some r"
      and "loads r = None" for r
    using that
    by (simp add: fetch_error_def get_activity_details_def send_def requests_def
          detail_request_def)
  have page: "fetch_error w a rk = Some EndpointConnectionError"
    if "get_activity_details w (activity_id a) rk = (Inr j, rk0)"
      and "profile_username w rk0 = (Inr u, rk1)"
      and "respond w (length (requests rk1)) (page_request (site rk) u (activity_id a)) = None"
    for j rk0 u rk1
  proof -
    have "site rk0 = site rk"
      using get_activity_details_keeps [of w "activity_id a" rk] that(1) by simp
    then have "site rk1 = site rk"
      using profile_username_site [of w rk0] that(2) by simp
    then show ?thesis
      using that
      by (simp add: fetch_error_def get_activity_datetime_def send_def requests_def
            page_request_def)
  qed
  have stored: "populate w (a, rk) =
              (Inr (),
               a\<lparr>Activity__datetime := Some d,
                 Activity__statsCalories := dict_get kvs ''statsCalories'',
                 Activity__statsElevation := dict_get kvs ''statsElevation'',
                 Activity__statsPace := dict_get kvs ''statsPace'',
                 Activity__statsSpeed := dict_get kvs ''statsSpeed''\<rparr>,
               rk1)"
    if "get_activity_details w (activity_id a) rk = (Inr (JObj kvs), rk0)"
      and "get_activity_datetime w (activity_id a) rk0 = (Inr d, rk1)"
    for kvs rk0 d rk1
    using that by (rule populate_fetched)
  have filled: "\<exists>kvs rk0 d rk1. get_activity_details w (activity_id a) rk = (Inr (JObj kvs), rk0)
            \<and> get_activity_datetime w (activity_id a) rk0 = (Inr d, rk1)
            \<and> populate w (a, rk) =
                  (Inr (),
                   a\<lparr>Activity__datetime := Some d,
                     Activity__statsCalories := dict_get kvs ''statsCalories'',
                     Activity__statsElevation := dict_get kvs ''statsElevation'',
                     Activity__statsPace := dict_get kvs ''statsPace'',
                     Activity__statsSpeed := dict_get kvs ''statsSpeed''\<rparr>,
                   rk1)"
    if "fst (populate w (a, rk)) = Inr ()"
  proof -
    have pop: "populate w (a, rk) =
            (Inr (), fst (snd (populate w (a, rk))), snd (snd (populate w (a, rk))))"
      using that by (metis prod.collapse)
    obtain kvs rk0 d where
      "get_activity_details w (activity_id a) rk = (Inr (JObj kvs), rk0)"
      "get_activity_datetime w (activity_id a) rk0 = (Inr d, snd (snd (populate w (a, rk))))"
      using populate_success [OF pop] by blast
    then show ?thesis
      using populate_fetched by blast
  qed
  show ?thesis
    proof (intro conjI allI impI)
  qed (use failed transport malformed page stored filled in \<open>blast+\<close>)
qed

lemma populate_answered:
  assumes "get_activity_details w (activity_id a) rk = (Inr (JObj kvs), rk0)"
    and "Runkeeper__profile_username rk \<noteq> []"
    and "respond w (Suc (length (requests rk)))
           (page_request (site rk) (Runkeeper__profile_username rk) (activity_id a)) = Some r"
    and "subtitle r = Some [NavigableString ''Mon Jan 05 14:30:00 UTC 2024 - 3.1 mi'']"
  shows "populate w (a, rk) =
           (Inr (),
            a\<lparr>Activity__datetime := Some (Datetime 2024 1 5 14 30 0),
              Activity__statsCalories := dict_get kvs ''statsCalories'',
              Activity__statsElevation := dict_get kvs ''statsElevation'',
              Activity__statsPace := dict_get kvs ''statsPace'',
              Activity__statsSpeed := dict_get kvs ''statsSpeed''\<rparr>,
            rk0\<lparr>session := \<lparr>jar = cookies r @ jar (session rk0),
                 sent = requests rk
                          @ [detail_request (site rk) (activity_id a),
                             page_request (site rk) (Runkeeper__profile_username rk)
                               (activity_id a)]\<rparr>\<rparr>)"
proof -
  have r0: "requests rk0 = requests rk @ [detail_request (site rk) (activity_id a)]"
    using get_activity_details_requests [of w "activity_id a" rk] assms(1) by simp
  have k0: "site rk0 = site rk" "Runkeeper__profile_username rk0 = Runkeeper__profile_username rk"
    using get_activity_details_keeps [of w "activity_id a" rk] assms(1) by simp_all
  have p: "profile_username w rk0 = (Inr (Runkeeper__profile_username rk), rk0)"
    using profile_username_cached [of rk0 w] k0 assms(2) by simp
  have g: "respond w (length (requests rk0))
             (page_request (site rk0) (Runkeeper__profile_username rk) (activity_id a)) = Some r"
    using assms(3) r0 k0 by simp
  show ?thesis
    using assms(1) get_activity_datetime_subtitle [OF p g assms(4)] r0 k0
    by (simp add: populate_def)
qed

lemma activity_page_subtitle:
  "subtitle activity_page = Some [NavigableString ''Mon Jan 05 14:30:00 UTC 2024 - 3.1 mi'']"
  "cookies activity_page = []"
  by (simp_all add: activity_page_def blank_def)

lemma resolved_fields:
  "site resolved = ''https://runkeeper.com''"
  "Runkeeper__profile_username resolved = ''john''"
  "jar (session resolved) = [(''checker'', ''1'')]"
  "length (requests resolved) = 3"
  "site fetched = ''https://runkeeper.com''"
  "Runkeeper__profile_username fetched = ''john''"
  "jar (session fetched) = [(''checker'', ''1'')]"
  "length (requests fetched) = 5"
  "activity_id record1 = JInt 101"
  by (simp_all add: resolved_def fetched_def manager_def requests_def record1_def)

lemma service_populates: "populate service (record1, resolved) = (Inr (), populated1, fetched)"
proof -
  have d: "get_activity_details service (activity_id record1) resolved
             = (Inr (JObj [(''statsCalories'', JInt 120), (''statsElevation'', JInt 5),
                           (''statsPace'', JStr ''5:30''), (''statsSpeed'', JFloat 10.9)]),
                resolved\<lparr>session := \<lparr>jar = [(''checker'', ''1'')],
                  sent = requests resolved
                           @ [detail_request ''https://runkeeper.com'' (JInt 101)]\<rparr>\<rparr>)"
    using service_details by (simp add: stats_def resolved_fields)
  have c: "Runkeeper__profile_username resolved \<noteq> []"
    by (simp add: resolved_fields)
  have g: "respond service (Suc (length (requests resolved)))
             (page_request (site resolved) (Runkeeper__profile_username resolved)
                (activity_id record1)) = Some activity_page"
    by (simp add: service_def serve_def page_request_def)
  show ?thesis
    using populate_answered [OF d c g activity_page_subtitle(1)]
    by (simp add: populated1_def fetched_def dict_get_def resolved_fields
          activity_page_subtitle)
qed

lemma service_page:
  "get_activity_datetime service (activity_id record1)
     (resolved\<lparr>session := \<lparr>jar = [(''checker'', ''1'')],
        sent = requests resolved @ [detail_request ''https://runkeeper.com'' (JInt 101)]\<rparr>\<rparr>)
   = (Inr (Datetime 2024 1 5 14 30 0), fetched)"
proof -
  let ?rk = "resolved\<lparr>session := \<lparr>jar = [(''checker'', ''1'')],
        sent = requests resolved @ [detail_request ''https://runkeeper.com'' (JInt 101)]\<rparr>\<rparr>"
  have p: "profile_username service ?rk = (Inr ''john'', ?rk)"
    by (simp add: profile_username_def resolved_def)
  have g: "respond service (length (requests ?rk))
             (page_request (site ?rk) ''john'' (activity_id record1)) = Some activity_page"
    by (simp add: service_def serve_def page_request_def)
  show ?thesis
    using get_activity_datetime_subtitle [OF p g activity_page_subtitle(1)]
    by (simp add: fetched_def resolved_fields activity_page_subtitle requests_def)
qed

theorem populate_all_or_nothing_witness:
  "fst (populate details_malformed (record1, resolved)) = Inl InvalidActivityId
   \<and> fst (snd (populate details_malformed (record1, resolved))) = record1
   \<and> access service Calories
        (fst (snd (populate details_malformed (record1, resolved))),
         snd (snd (populate details_malformed (record1, resolved))))
       = populate_then service Calories
           (fst (snd (populate details_malformed (record1, resolved))),
            snd (snd (populate details_malformed (record1, resolved))))
   \<and> populate service (record1, resolved) = (Inr (), populated1, fetched)"
proof -
  note bad = populate_all_or_nothing [of details_malformed record1 resolved]
  note good = populate_all_or_nothing [of service record1 resolved]
  have r: "respond details_malformed (length (requests resolved))
             (detail_request (site resolved) (activity_id record1)) = Some blank
           \<and> loads blank = None"
    by (simp add: details_malformed_def answering_def service_def detail_request_def blank_def)
  have e: "fetch_error details_malformed record1 resolved = Some InvalidActivityId"
    using bad [THEN conjunct2, THEN conjunct2, THEN conjunct1, rule_format, OF r] .
  note failed = bad [THEN conjunct1, rule_format, OF e]
  have u: "unpopulated record1"
    by (simp add: unpopulated_def record1_def)
  have again: "access service Calories
        (fst (snd (populate details_malformed (record1, resolved))),
         snd (snd (populate details_malformed (record1, resolved))))
       = populate_then service Calories
           (fst (snd (populate details_malformed (record1, resolved))),
            snd (snd (populate details_malformed (record1, resolved))))"
    using failed [THEN conjunct2, THEN conjunct2, rule_format, OF u] .
  have d: "get_activity_details service (activity_id record1) resolved
             = (Inr (JObj [(''statsCalories'', JInt 120), (''statsElevation'', JInt 5),
                           (''statsPace'', JStr ''5:30''), (''statsSpeed'', JFloat 10.9)]),
                resolved\<lparr>session := \<lparr>jar = [(''checker'', ''1'')],
                  sent = requests resolved
                           @ [detail_request ''https://runkeeper.com'' (JInt 101)]\<rparr>\<rparr>)
           \<and> get_activity_datetime service (activity_id record1)
                (resolved\<lparr>session := \<lparr>jar = [(''checker'', ''1'')],
                  sent = requests resolved
                           @ [detail_request ''https://runkeeper.com'' (JInt 101)]\<rparr>\<rparr>)
             = (Inr (Datetime 2024 1 5 14 30 0), fetched)"
    using service_details service_page by (simp add: stats_def resolved_fields)
  have stored: "populate service (record1, resolved) = (Inr (), populated1, fetched)"
    using good [THEN conjunct2, THEN conjunct2, THEN conjunct2, THEN conjunct2, THEN conjunct1,
        rule_format, OF d]
    by (simp add: populated1_def dict_get_def)
  show ?thesis
    using failed [THEN conjunct1] failed [THEN conjunct2, THEN conjunct1] again stored
    by (intro conjI)
qed


section \<open>Fetches of the lazy properties\<close>

lemma zero_calories_details:
  "Runkeeper__profile_username rk = ''john'' \<Longrightarrow>
   get_activity_details zero_calories (JInt 101) rk =
     (Inr (JObj [(''statsCalories'', JInt 0), (''statsElevation'', JInt 5),
                 (''statsPace'', JStr ''5:30''), (''statsSpeed'', JFloat 10.9)]),
      rk\<lparr>session := \<lparr>jar = jar (session rk),
            sent = requests rk @ [detail_request (site rk) (JInt 101)]\<rparr>\<rparr>)"
  by (simp add: get_activity_details_def send_def zero_calories_def answering_def service_def
        blank_def resting_def requests_def detail_request_def)

lemma zero_calories_page:
  "respond zero_calories n (page_request st u i) = Some activity_page"
  by (simp add: zero_calories_def answering_def service_def serve_def page_request_def)

lemma zero_calories_first:
  "populate zero_calories (record1, resolved) = (Inr (), rested, fetched)"
proof -
  have c: "Runkeeper__profile_username resolved \<noteq> []"
    by (simp add: resolved_fields)
  show ?thesis
    using populate_answered [OF zero_calories_details [of resolved, unfolded
          resolved_fields(9) [symmetric]] c zero_calories_page activity_page_subtitle(1)]
    by (simp add: resolved_fields rested_def fetched_def dict_get_def activity_page_subtitle
          requests_def)
qed

lemma zero_calories_second:
  "populate zero_calories (rested, fetched) = (Inr (), rested, fetched_twice)"
proof -
  have i: "activity_id rested = JInt 101"
    by (simp add: rested_def record1_def)
  have c: "Runkeeper__profile_username fetched \<noteq> []"
    by (simp add: resolved_fields)
  have d: "get_activity_details zero_calories (activity_id rested) fetched =
     (Inr (JObj [(''statsCalories'', JInt 0), (''statsElevation'', JInt 5),
                 (''statsPace'', JStr ''5:30''), (''statsSpeed'', JFloat 10.9)]),
      fetched\<lparr>session := \<lparr>jar = jar (session fetched),
            sent = requests fetched @ [detail_request (site fetched) (JInt 101)]\<rparr>\<rparr>)"
    using zero_calories_details [of fetched] by (simp add: i resolved_fields)
  show ?thesis
    using populate_answered [OF d c zero_calories_page activity_page_subtitle(1)]
    by (simp add: i resolved_fields rested_def fetched_def fetched_twice_def dict_get_def
          activity_page_subtitle requests_def)
qed

lemma sample_counts:
  "detail_fetches resolved = 0" "page_fetches resolved = 0"
  "detail_fetches fetched = 1" "page_fetches fetched = 1"
  "detail_fetches fetched_twice = 2" "page_fetches fetched_twice = 2"
  by (simp_all add: detail_fetches_def page_fetches_def is_page_def requests_def resolved_def
        fetched_def fetched_twice_def manager_def login_page_request_def
        login_post_request_def home_request_def detail_request_def page_request_def)

text \<open>
  What holds of the five properties. For a fresh record, a first access that succeeds
  has made exactly one request to the detail endpoint and exactly one to the activity
  page, and the record then holds the timestamp that \<open>get_activity_datetime\<close> returned
  and the four values that the object returned by \<open>get_activity_details\<close> has under
  \<^verbatim>\<open>statsCalories\<close>, \<^verbatim>\<open>statsElevation\<close>, \<^verbatim>\<open>statsPace\<close> and \<^verbatim>\<open>statsSpeed\<close>. After it a
  property whose cached value is true returns that value with no request and no
  change, whatever the network would answer; the timestamp is always of this kind.
\<close>

lemma first_access_fetches_once:
  assumes "unpopulated a" and "access w p (a, rk) = (Inr v, a1, rk1)"
  shows "detail_fetches rk1 = Suc (detail_fetches rk)
       \<and> page_fetches rk1 = Suc (page_fetches rk)
       \<and> v = cached p a1
       \<and> (\<exists>kvs rk0 d.
             get_activity_details w (activity_id a) rk = (Inr (JObj kvs), rk0)
             \<and> get_activity_datetime w (activity_id a) rk0 = (Inr d, rk1)
             \<and> a1 = a\<lparr>Activity__datetime := Some d,
                        Activity__statsCalories := dict_get kvs ''statsCalories'',
                        Activity__statsElevation := dict_get kvs ''statsElevation'',
                        Activity__statsPace := dict_get kvs ''statsPace'',
                        Activity__statsSpeed := dict_get kvs ''statsSpeed''\<rparr>)
       \<and> cached_true Timestamp a1
       \<and> (\<forall>q w'. cached_true q a1 \<longrightarrow> access w' q (a1, rk1) = (Inr (cached q a1), a1, rk1))
       \<and> (\<forall>q w'. \<not> cached_true q a1 \<longrightarrow> access w' q (a1, rk1) = populate_then w' q (a1, rk1))"
proof -
  have "access w p (a, rk) = populate_then w p (a, rk)"
    using assms(1) by (simp add: access_populates unpopulated_cached)
  then have pt: "populate_then w p (a, rk) = (Inr v, a1, rk1)"
    using assms(2) by simp
  obtain r ar where pr: "populate w (a, rk) = (r, ar)"
    by (cases "populate w (a, rk)")
  have r: "r = Inr ()"
    using pt pr by (cases r) (simp_all add: populate_then_def)
  have ar: "ar = (a1, rk1)"
    using pt pr r by (simp add: populate_then_def)
  have v: "v = cached p a1"
    using pt pr r by (auto simp add: populate_then_def)
  have pop: "populate w (a, rk) = (Inr (), a1, rk1)"
    using pr r ar by simp
  obtain profile where rq: "requests rk1 =
           requests rk @ [detail_request (site rk) (activity_id a)]
             @ (if Runkeeper__profile_username rk = [] then [home_request (site rk)] else [])
             @ [page_request (site rk) profile (activity_id a)]"
    using populate_requests [OF pop] by blast
  have d: "detail_fetches rk1 = Suc (detail_fetches rk)"
    by (simp add: detail_fetches_def rq detail_request_def home_request_def page_request_def)
  have g: "page_fetches rk1 = Suc (page_fetches rk)"
    by (simp add: page_fetches_def rq is_page_def detail_request_def home_request_def
          page_request_def)
  note stored = populate_success [OF pop]
  have t: "cached_true Timestamp a1"
    using stored by (auto simp add: cached_true_def cached_def)
  show ?thesis
    using d g v t stored by (simp add: access_cached access_populates)
qed

lemma service_first_access:
  "access service Calories (record1, resolved) = (Inr (Stat (JInt 120)), populated1, fetched)"
proof -
  have "\<not> cached_true Calories record1"
    by (simp add: cached_true_def cached_def record1_def)
  then show ?thesis
    by (simp add: access_populates populate_then_def service_populates cached_def
          populated1_def)
qed

lemma populated1_cached:
  "cached_true Pace populated1" "cached Pace populated1 = Stat (JStr ''5:30'')"
  "cached_true Calories populated1" "cached Calories populated1 = Stat (JInt 120)"
  "cached Timestamp populated1 = Stamp (Some (Datetime 2024 1 5 14 30 0))"
  "unpopulated record1"
  by (simp_all add: cached_true_def cached_def populated1_def unpopulated_def record1_def)

lemma service_second_access:
  "detail_fetches fetched = Suc (detail_fetches resolved)
   \<and> page_fetches fetched = Suc (page_fetches resolved)
   \<and> access (failing_at 5) Pace (populated1, fetched)
       = (Inr (Stat (JStr ''5:30'')), populated1, fetched)
   \<and> access (failing_at 5) Calories (populated1, fetched)
       = (Inr (Stat (JInt 120)), populated1, fetched)
   \<and> access (failing_at 5) Timestamp (populated1, fetched)
       = (Inr (Stamp (Some (Datetime 2024 1 5 14 30 0))), populated1, fetched)"
proof -
  note fact = first_access_fetches_once [OF populated1_cached(6) service_first_access]
  note again = fact [THEN conjunct2, THEN conjunct2, THEN conjunct2, THEN conjunct2,
      THEN conjunct2, THEN conjunct1, rule_format]
  have stamp: "cached_true Timestamp populated1"
    using fact [THEN conjunct2, THEN conjunct2, THEN conjunct2, THEN conjunct2,
        THEN conjunct1] .
  have counts: "detail_fetches fetched = Suc (detail_fetches resolved)"
      "page_fetches fetched = Suc (page_fetches resolved)"
    using fact [THEN conjunct1] fact [THEN conjunct2, THEN conjunct1] .
  show ?thesis
    using counts again [OF populated1_cached(1), of "failing_at 5"]
      again [OF populated1_cached(3), of "failing_at 5"] again [OF stamp, of "failing_at 5"]
    by (simp only: populated1_cached(2,4,5) simp_thms)
qed

text \<open>
  C1. After a first successful access, a second access of any of the five properties is
  claimed to fetch nothing, for every value the detail endpoint may have returned,
  zero and empty included. The properties cache (the constructor sets the five fields
  to \<^verbatim>\<open>None\<close> and each property fetches only when its field is unset), but the test
  is \<^verbatim>\<open>if not self.__statsCalories\<close>, which a cached 0 fails like \<^verbatim>\<open>None\<close>. Evaluated
  on a detail blob with \<^verbatim>\<open>statsCalories\<close> equal to 0: the first read of \<open>calories\<close>
  makes one detail fetch and one page fetch and returns 0, and the second read of
  the populated record makes both fetches once more.
\<close>

theorem zero_statistic_fetched_again:
  "calories zero_calories (record1, resolved) = (Inr (JInt 0), rested, fetched)
   \<and> calories zero_calories (rested, fetched) = (Inr (JInt 0), rested, fetched_twice)
   \<and> detail_fetches resolved = 0 \<and> page_fetches resolved = 0
   \<and> detail_fetches fetched = 1 \<and> page_fetches fetched = 1
   \<and> detail_fetches fetched_twice = 2 \<and> page_fetches fetched_twice = 2"
  by (simp add: calories_def zero_calories_first zero_calories_second sample_counts)
     (simp add: rested_def record1_def)


end
